theory Spec2Isabelle
  imports Main "HOL-Library.AList"
begin

section \<open>The cache core of \<open>src/ak.js\<close>\<close>

text \<open>
  The development embeds the package cache of \<open>src/ak.js\<close>: \<open>sanitizeInput\<close>,
  \<open>getPackageVersion\<close>, \<open>cachePackage\<close>, \<open>getCachedPackage\<close>, \<open>execPromise\<close>,
  \<open>ensurePackageJson\<close> and \<open>installPackages\<close>.

  Strings are \<open>char list\<close>. What lies outside the file is a parameter: the constants read
  from the process environment, the library functions \<open>JSON.parse\<close>, \<open>JSON.stringify\<close> and
  the SHA-512/base64 digest (record \<open>env\<close>), and the registry, the file system and the
  shell (record \<open>world\<close>).
\<close>

subsection \<open>Data\<close>

type_synonym filepath = string

text \<open>
  A value of the manifest object: \<open>{ path, integrity }\<close>. The manifest itself is a JS object
  with string keys, which keeps its keys in insertion order: an association list, with
  \<open>AList.update\<close> for \<open>manifest[key] = v\<close> (in place when the key exists, appended otherwise)
  and \<open>AList.delete\<close> for \<open>delete manifest[key]\<close>.
\<close>

record entry =
  path :: filepath
  integrity :: string

type_synonym manifest = "(string \<times> entry) list"

text \<open>
  The registry document, by the fields the program reads:
  \<open>data["dist-tags"].latest\<close> and \<open>data.versions[v].dist.{tarball, integrity}\<close>.
  \<open>None\<close> is JavaScript's \<open>undefined\<close>: the object (or the field) is missing. A
  \<open>dist-tags\<close> object, when there is one, is taken to carry a \<open>latest\<close> tag.
\<close>

record dist_info =
  tarball :: "string option"
  dist_integrity :: "string option"

record pkgdata =
  dist_tags_latest :: "string option"
  versions :: "(string \<rightharpoonup> dist_info option) option"

text \<open>
  An HTTP response: \<open>res.ok\<close>, what \<open>res.json()\<close> yields (\<open>None\<close>: the body is not
  JSON and the promise rejects) and the raw body that \<open>res.body.pipe\<close> streams.
\<close>

record response =
  ok :: bool
  res_json :: "pkgdata option"
  res_body :: string

text \<open>
  The errors the program can end with. The first three are the \<open>new Error(...)\<close> of the
  source, by their message; the others are raised by the runtime and the libraries.
\<close>

datatype error =
    InvalidPackage string            \<comment> \<open>\<open>Invalid package: ${pkg}\<close>\<close>
  | PackageNotFound string           \<comment> \<open>\<open>Package ${pkg} not found\<close>\<close>
  | IntegrityFailed string string    \<comment> \<open>\<open>Integrity check failed for ${pkg}@${pkgVersion}\<close>\<close>
  | TypeError                        \<comment> \<open>a property read on \<open>undefined\<close>, \<open>fetch(undefined)\<close>\<close>
  | FetchFailed string               \<comment> \<open>\<open>fetch(url)\<close> rejected\<close>
  | InvalidJson                      \<comment> \<open>\<open>res.json()\<close> or \<open>JSON.parse\<close> on a text that is not JSON\<close>
  | ENOENT filepath                  \<comment> \<open>an absent file, or a file to create in an absent directory\<close>
  | EACCES filepath                  \<comment> \<open>a file that may not be created or written\<close>
  | CommandFailed string             \<comment> \<open>\<open>exec\<close> called back with an error\<close>

text \<open>Every call that leaves the process is logged, in order.\<close>

datatype event =
    HttpGet string
  | Mkdir filepath
  | Access filepath
  | OpenWrite filepath
  | FinishWrite filepath
  | ReadFile filepath
  | Unlink filepath
  | WriteFile filepath
  | Exec string

text \<open>
  The state the program runs in. \<open>http\<close> answers a GET (\<open>None\<close>: \<open>fetch\<close> rejects);
  \<open>files\<close> is the content of each file that exists; \<open>write_error p\<close> is the system error
  with which the creation or the overwriting of a file at \<open>p\<close> fails (\<open>ENOENT p\<close> when a
  directory of the path is missing, as under \<open>CACHE_DIR\<close> for a scoped name \<open>@scope/name\<close>,
  \<open>EACCES p\<close> when it is not permitted), \<open>None\<close> when it goes through; \<open>shell\<close> tells
  whether a command succeeds; \<open>versionCache\<close> is the module-level \<open>Map\<close> of the source.
\<close>

record world =
  http :: "string \<Rightarrow> response option"
  files :: "filepath \<rightharpoonup> string"
  write_error :: "filepath \<Rightarrow> error option"
  shell :: "string \<Rightarrow> bool"
  versionCache :: "string \<rightharpoonup> string"
  trace :: "event list"

text \<open>
  The parameters of the module. \<open>CACHE_DIR\<close>, \<open>REGISTRY_URL\<close>, \<open>BUN_PATH\<close> are the
  constants of lines 15-20, \<open>cwd\<close> is \<open>process.cwd()\<close>. \<open>logger_info\<close> is the truthiness of
  the value that \<open>logger.info(...)\<close> returns: line 86 calls \<open>resolve\<close> behind
  \<open>logger.info(...) &&\<close>. The log methods of pino return \<open>undefined\<close>, that is \<open>False\<close>.
\<close>

record env =
  CACHE_DIR :: filepath
  REGISTRY_URL :: string
  BUN_PATH :: string
  cwd :: filepath
  sha512_base64 :: "string \<Rightarrow> string"
  JSON_parse :: "string \<Rightarrow> manifest option"
  JSON_stringify :: "manifest \<Rightarrow> string"
  defaultPkgJson :: string
  logger_info :: bool

text \<open>
  \<open>path.join(dir, name)\<close>, on operands that need no normalisation.
\<close>

definition path_join :: "filepath \<Rightarrow> string \<Rightarrow> filepath" where
  "path_join dir name = dir @ ''/'' @ name"

definition MANIFEST_PATH :: "env \<Rightarrow> filepath" where
  "MANIFEST_PATH env = path_join (CACHE_DIR env) ''cache-manifest.json''"

subsection \<open>Asynchronous programs\<close>

text \<open>
  An \<open>async\<close> function is a tree of steps. \<open>Await eff k\<close> is an \<open>await\<close> on an operation:
  the function is suspended; when it is resumed in a world \<open>w\<close> the operation has its
  effect \<open>eff w\<close> and the function goes on as \<open>k w\<close>. \<open>Sync eff k\<close> is code that runs without
  suspending. \<open>Never\<close> is an \<open>await\<close> on a promise that nothing settles.
\<close>

datatype 'a prog =
    Return 'a
  | Throw error
  | Never
  | Sync "world \<Rightarrow> world" "world \<Rightarrow> 'a prog"
  | Await "world \<Rightarrow> world" "world \<Rightarrow> 'a prog"

primrec bind :: "'a prog \<Rightarrow> ('a \<Rightarrow> 'b prog) \<Rightarrow> 'b prog" where
  "bind (Return a) f = f a"
| "bind (Throw e) f = Throw e"
| "bind Never f = Never"
| "bind (Sync eff k) f = Sync eff (\<lambda>w. bind (k w) f)"
| "bind (Await eff k) f = Await eff (\<lambda>w. bind (k w) f)"

primrec catch :: "'a prog \<Rightarrow> (error \<Rightarrow> 'a prog) \<Rightarrow> 'a prog" where
  "catch (Return a) h = Return a"
| "catch (Throw e) h = h e"
| "catch Never h = Never"
| "catch (Sync eff k) h = Sync eff (\<lambda>w. catch (k w) h)"
| "catch (Await eff k) h = Await eff (\<lambda>w. catch (k w) h)"

text \<open>How a promise ends, and the run of one program alone, from start to end.\<close>

datatype 'a outcome = Resolved 'a | Rejected error | Unsettled

primrec exec :: "'a prog \<Rightarrow> world \<Rightarrow> 'a outcome \<times> world" where
  "exec (Return a) = (\<lambda>w. (Resolved a, w))"
| "exec (Throw e) = (\<lambda>w. (Rejected e, w))"
| "exec Never = (\<lambda>w. (Unsettled, w))"
| "exec (Sync eff k) = (\<lambda>w. exec (k w) (eff w))"
| "exec (Await eff k) = (\<lambda>w. exec (k w) (eff w))"

subsection \<open>The operations of the platform\<close>

definition log :: "event \<Rightarrow> world \<Rightarrow> world" where
  "log e w = w\<lparr>trace := trace w @ [e]\<rparr>"

definition fetch :: "string \<Rightarrow> response prog" where
  "fetch url = Await (log (HttpGet url))
     (\<lambda>w. case http w url of None \<Rightarrow> Throw (FetchFailed url) | Some res \<Rightarrow> Return res)"

definition json :: "response \<Rightarrow> pkgdata prog" where
  "json res = Await id
     (\<lambda>w. case res_json res of None \<Rightarrow> Throw InvalidJson | Some data \<Rightarrow> Return data)"

definition mkdir :: "filepath \<Rightarrow> unit prog" where
  "mkdir p = Await (log (Mkdir p)) (\<lambda>w. Return ())"

text \<open>\<open>fsPromises.access(p).then(() => true).catch(() => false)\<close>\<close>

definition access :: "filepath \<Rightarrow> bool prog" where
  "access p = Await (log (Access p)) (\<lambda>w. Return (files w p \<noteq> None))"

definition readFile :: "filepath \<Rightarrow> string prog" where
  "readFile p = Await (log (ReadFile p))
     (\<lambda>w. case files w p of None \<Rightarrow> Throw (ENOENT p) | Some bytes \<Rightarrow> Return bytes)"

definition unlink :: "filepath \<Rightarrow> unit prog" where
  "unlink p = Await (\<lambda>w. log (Unlink p) (w\<lparr>files := (files w)(p := None)\<rparr>))
     (\<lambda>w. if files w p = None then Throw (ENOENT p) else Return ())"

definition writeFile :: "filepath \<Rightarrow> string \<Rightarrow> unit prog" where
  "writeFile p s =
     Await (\<lambda>w. log (WriteFile p)
                 (case write_error w p of None \<Rightarrow> w\<lparr>files := (files w)(p \<mapsto> s)\<rparr> | Some err \<Rightarrow> w))
       (\<lambda>w. case write_error w p of None \<Rightarrow> Return () | Some err \<Rightarrow> Throw err)"

text \<open>
  Lines 83-88: \<open>fs.createWriteStream(cachePath)\<close>, \<open>tarball.body.pipe(writeStream)\<close> and the
  promise around them. The stream opens the file, which creates or truncates it, and
  emits \<open>error\<close> with the system error when it cannot, which line 87 turns into the
  rejection; it emits \<open>finish\<close> when the whole body is written. Of
  the states of the file in between, the model has the first, the empty file. On
  \<open>finish\<close> the handler is \<open>logger.info(...) && resolve()\<close>.
\<close>

definition finishStream :: "env \<Rightarrow> string \<Rightarrow> filepath \<Rightarrow> unit prog" where
  "finishStream env body p =
     Await (\<lambda>w. log (FinishWrite p) (w\<lparr>files := (files w)(p \<mapsto> body)\<rparr>))
       (\<lambda>w. if logger_info env then Return () else Never)"

definition pipeToFile :: "env \<Rightarrow> string \<Rightarrow> filepath \<Rightarrow> unit prog" where
  "pipeToFile env body p =
     Await (\<lambda>w. log (OpenWrite p)
                 (case write_error w p of None \<Rightarrow> w\<lparr>files := (files w)(p \<mapsto> [])\<rparr> | Some err \<Rightarrow> w))
       (\<lambda>w. case write_error w p of None \<Rightarrow> finishStream env body p | Some err \<Rightarrow> Throw err)"

subsection \<open>The functions of \<open>src/ak.js\<close>\<close>

text \<open>Line 39: the names that match \<open>/^[a-zA-Z0-9-_@\/]+$/\<close>.\<close>

definition name_char :: "char \<Rightarrow> bool" where
  "name_char c =
     (c \<in> set ''abcdefghijklmnopqrstuvwxyzABCDEFGHIJKLMNOPQRSTUVWXYZ0123456789-_@/'')"

definition sanitizeInput :: "string \<Rightarrow> error + string" where
  "sanitizeInput pkg =
     (if \<not> (pkg \<noteq> [] \<and> list_all name_char pkg) then Inl (InvalidPackage pkg) else Inr pkg)"

text \<open>The address \<open>`${REGISTRY_URL}/${pkg}`\<close> of lines 30 and 71.\<close>

definition packageUrl :: "env \<Rightarrow> string \<Rightarrow> string" where
  "packageUrl env pkg = REGISTRY_URL env @ ''/'' @ pkg"

definition getPackageVersion :: "env \<Rightarrow> string \<Rightarrow> bool \<Rightarrow> string prog" where
  "getPackageVersion env pkg forceLatest =
     Sync id (\<lambda>w.
       case (if forceLatest then None else versionCache w pkg) of
         Some cached \<Rightarrow> Return cached
       | None \<Rightarrow>
           bind (fetch (packageUrl env pkg)) (\<lambda>res.
             if \<not> ok res then Throw (PackageNotFound pkg)
             else bind (json res) (\<lambda>data.
               case dist_tags_latest data of
                 None \<Rightarrow> Throw TypeError
               | Some version \<Rightarrow>
                   Sync (\<lambda>w. w\<lparr>versionCache := (versionCache w)(pkg \<mapsto> version)\<rparr>)
                     (\<lambda>w. Return version))))"

text \<open>
  The expression \<open>fsPromises.readFile(MANIFEST_PATH, "utf8").then(JSON.parse).catch(() => ({}))\<close>
  of lines 98, 105 and 308, and the \<open>writeFile\<close> of lines 100 and 114.
\<close>

definition loadManifest :: "env \<Rightarrow> manifest prog" where
  "loadManifest env =
     catch (bind (readFile (MANIFEST_PATH env)) (\<lambda>text.
              case JSON_parse env text of None \<Rightarrow> Throw InvalidJson | Some m \<Rightarrow> Return m))
       (\<lambda>e. Return [])"

definition saveManifest :: "env \<Rightarrow> manifest \<Rightarrow> unit prog" where
  "saveManifest env m = writeFile (MANIFEST_PATH env) (JSON_stringify env m)"

text \<open>The manifest that \<open>loadManifest\<close> reads in a world.\<close>

definition manifestOf :: "env \<Rightarrow> world \<Rightarrow> manifest" where
  "manifestOf env w =
     (case files w (MANIFEST_PATH env) of
        None \<Rightarrow> []
      | Some text \<Rightarrow> (case JSON_parse env text of None \<Rightarrow> [] | Some m \<Rightarrow> m))"

definition cachePathOf :: "env \<Rightarrow> string \<Rightarrow> string \<Rightarrow> filepath" where
  "cachePathOf env pkg pkgVersion = path_join (CACHE_DIR env) (pkg @ ''-'' @ pkgVersion @ ''.tgz'')"

definition keyOf :: "string \<Rightarrow> string \<Rightarrow> string" where
  "keyOf pkg version = pkg @ ''@'' @ version"

definition digest :: "env \<Rightarrow> string \<Rightarrow> string" where
  "digest env bytes = ''sha512-'' @ sha512_base64 env bytes"

definition download :: "env \<Rightarrow> string option \<Rightarrow> filepath \<Rightarrow> unit prog" where
  "download env tarballUrl cachePath =
     (case tarballUrl of
        None \<Rightarrow> Await id (\<lambda>w. Throw TypeError)
      | Some url \<Rightarrow> bind (fetch url) (\<lambda>tarball. pipeToFile env (res_body tarball) cachePath))"

text \<open>
  In \<open>cachePackage\<close> the entry is written on the branch where the digest of the bytes
  equals \<open>integrity\<close>, so the recorded \<open>integrity\<close> is that digest.
\<close>

definition cachePackage :: "env \<Rightarrow> string \<Rightarrow> string \<Rightarrow> filepath prog" where
  "cachePackage env pkg version =
     bind (fetch (packageUrl env pkg)) (\<lambda>res.
     bind (json res) (\<lambda>data.
       (case (if version = ''latest'' then dist_tags_latest data else Some version) of
          None \<Rightarrow> Throw TypeError
        | Some pkgVersion \<Rightarrow>
       (case versions data of
          None \<Rightarrow> Throw TypeError
        | Some vs \<Rightarrow>
       (case vs pkgVersion of
          None \<Rightarrow> Throw TypeError
        | Some None \<Rightarrow> Throw TypeError
        | Some (Some dist) \<Rightarrow>
           (let cachePath = cachePathOf env pkg pkgVersion in
            bind (mkdir (CACHE_DIR env)) (\<lambda>_.
            bind (access cachePath) (\<lambda>present.
            bind (if \<not> present then download env (tarball dist) cachePath else Return ()) (\<lambda>_.
            bind (readFile cachePath) (\<lambda>bytes.
              if Some (digest env bytes) \<noteq> dist_integrity dist then
                bind (unlink cachePath) (\<lambda>_. Throw (IntegrityFailed pkg pkgVersion))
              else
                bind (loadManifest env) (\<lambda>manifest.
                bind (saveManifest env
                        (AList.update (keyOf pkg pkgVersion)
                           \<lparr>path = cachePath, integrity = digest env bytes\<rparr> manifest)) (\<lambda>_.
                Return cachePath))))))))))))"

definition getCachedPackage :: "env \<Rightarrow> string \<Rightarrow> string \<Rightarrow> filepath option prog" where
  "getCachedPackage env pkg version =
     bind (loadManifest env) (\<lambda>manifest.
       let key = keyOf pkg version in
       case map_of manifest key of
         None \<Rightarrow> Return None
       | Some e \<Rightarrow>
           bind (readFile (path e)) (\<lambda>bytes.
             if digest env bytes \<noteq> integrity e then
               bind (unlink (path e)) (\<lambda>_.
               bind (saveManifest env (AList.delete key manifest)) (\<lambda>_.
               Return None))
             else Return (Some (path e))))"

text \<open>
  Lines 149-150, the acquisition of one package inside \<open>installPackages\<close>:
  \<open>getCachedPackage(pkg, version) || cachePackage(pkg, version)\<close>. The empty string is
  falsy, as \<open>null\<close> is.
\<close>

definition acquire :: "env \<Rightarrow> string \<Rightarrow> bool \<Rightarrow> filepath prog" where
  "acquire env pkg forceLatest =
     bind (getPackageVersion env pkg forceLatest) (\<lambda>version.
     bind (getCachedPackage env pkg version) (\<lambda>cached.
       case cached of
         None \<Rightarrow> cachePackage env pkg version
       | Some cachePath \<Rightarrow>
           if cachePath = [] then cachePackage env pkg version else Return cachePath))"

text \<open>
  Lines 43-68. The loop makes up to \<open>retries\<close> attempts, one second apart, and throws
  the error of the last one; with no attempt at all it returns \<open>undefined\<close>. An attempt
  that the timeout aborts ends with an error like any other. The argument counts the
  attempts that are left.
\<close>

primrec execPromise :: "env \<Rightarrow> string \<Rightarrow> nat \<Rightarrow> unit prog" where
  "execPromise env command 0 = Return ()"
| "execPromise env command (Suc left) =
     Await (log (Exec (BUN_PATH env @ '' '' @ command)))
       (\<lambda>w. if shell w (BUN_PATH env @ '' '' @ command) then Return ()
            else if left = 0 then Throw (CommandFailed (BUN_PATH env @ '' '' @ command))
            else Await id (\<lambda>w. execPromise env command left))"

definition ensurePackageJson :: "env \<Rightarrow> unit prog" where
  "ensurePackageJson env =
     (let pkgJsonPath = path_join (cwd env) ''package.json'' in
      bind (access pkgJsonPath) (\<lambda>present.
        if \<not> present then writeFile pkgJsonPath (defaultPkgJson env) else Return ()))"

record options =
  global :: bool
  force :: bool
  legacyPeerDeps :: bool

definition flags :: "options \<Rightarrow> string" where
  "flags options =
     (if global options then ''-g'' else []) @ '' '' @
     (if force options then ''--force'' else []) @ '' '' @
     (if legacyPeerDeps options then ''--legacy-peer-deps'' else [])"

text \<open>Lines 148-155, the function mapped over \<open>safePackages\<close>.\<close>

definition installOne :: "env \<Rightarrow> options \<Rightarrow> string \<Rightarrow> string prog" where
  "installOne env options pkg =
     bind (acquire env pkg (force options)) (\<lambda>cachePath.
     bind (execPromise env (''add '' @ [CHR 0x22] @ cachePath @ [CHR 0x22] @ '' '' @ flags options) 3)
       (\<lambda>_. Return pkg))"

subsection \<open>Tasks that run together\<close>

text \<open>
  \<open>Promise.all(safePackages.map(async pkg => ...))\<close> starts one task for each package.
  Calling an \<open>async\<close> function runs it up to its first \<open>await\<close> (\<open>run_sync\<close>), so \<open>map\<close>
  brings every task to its first \<open>await\<close>, in order (\<open>spawn\<close>). From then on the event
  loop resumes one suspended task at a time; the task runs up to its next \<open>await\<close>
  (\<open>resume\<close>). The order in which the awaited operations complete is not in the hands of
  the program: it is the schedule, the list of the tasks resumed, in order.
\<close>

primrec run_sync :: "'a prog \<Rightarrow> world \<Rightarrow> 'a prog \<times> world" where
  "run_sync (Return a) = (\<lambda>w. (Return a, w))"
| "run_sync (Throw e) = (\<lambda>w. (Throw e, w))"
| "run_sync Never = (\<lambda>w. (Never, w))"
| "run_sync (Sync eff k) = (\<lambda>w. run_sync (k w) (eff w))"
| "run_sync (Await eff k) = (\<lambda>w. (Await eff k, w))"

fun spawn :: "'a prog list \<Rightarrow> world \<Rightarrow> 'a prog list \<times> world" where
  "spawn [] w = ([], w)"
| "spawn (p # ps) w =
     (case run_sync p w of (p', w') \<Rightarrow>
        (case spawn ps w' of (ps', w'') \<Rightarrow> (p' # ps', w'')))"

primrec step :: "'a prog \<Rightarrow> world \<Rightarrow> 'a prog \<times> world" where
  "step (Return a) = (\<lambda>w. (Return a, w))"
| "step (Throw e) = (\<lambda>w. (Throw e, w))"
| "step Never = (\<lambda>w. (Never, w))"
| "step (Sync eff k) = (\<lambda>w. run_sync (k w) (eff w))"
| "step (Await eff k) = (\<lambda>w. run_sync (k w) (eff w))"

definition resume :: "nat \<Rightarrow> 'a prog list \<times> world \<Rightarrow> 'a prog list \<times> world" where
  "resume i c =
     (case c of (ps, w) \<Rightarrow>
        if i < length ps then (case step (ps ! i) w of (p', w') \<Rightarrow> (ps[i := p'], w'))
        else c)"

text \<open>
  \<open>Promise.all\<close> rejects as soon as one task has thrown, and \<open>installPackages\<close> then calls
  \<open>process.exit(1)\<close>: no task is resumed after that.
\<close>

fun rejection :: "'a prog list \<Rightarrow> error option" where
  "rejection [] = None"
| "rejection (Throw e # ps) = Some e"
| "rejection (p # ps) = rejection ps"

fun run :: "nat list \<Rightarrow> 'a prog list \<times> world \<Rightarrow> 'a prog list \<times> world" where
  "run [] c = c"
| "run (i # sched) c = (if rejection (fst c) \<noteq> None then c else run sched (resume i c))"

fun returned :: "'a prog \<Rightarrow> 'a option" where
  "returned (Return a) = Some a"
| "returned p = None"

fun suspended :: "'a prog \<Rightarrow> bool" where
  "suspended (Await eff k) = True"
| "suspended p = False"

text \<open>
  The outcome of \<open>Promise.all\<close> under a schedule. \<open>None\<close>: the schedule ends while a task
  can still be resumed. \<open>Unsettled\<close>: no task has thrown, none can be resumed, and one waits
  for a promise that nothing settles.
\<close>

definition promise_all ::
  "nat list \<Rightarrow> 'a prog list \<Rightarrow> world \<Rightarrow> 'a list outcome option \<times> world" where
  "promise_all sched ps w =
     (case run sched (spawn ps w) of (ps', w') \<Rightarrow>
        ((case rejection ps' of
            Some e \<Rightarrow> Some (Rejected e)
          | None \<Rightarrow>
              (case those (map returned ps') of
                 Some results \<Rightarrow> Some (Resolved results)
               | None \<Rightarrow> if list_ex suspended ps' then None else Some Unsettled)), w'))"

subsection \<open>\<open>installPackages\<close>\<close>

text \<open>\<open>packages.map(sanitizeInput)\<close>: the first name that is refused throws.\<close>

fun mapSanitizeInput :: "string list \<Rightarrow> error + string list" where
  "mapSanitizeInput [] = Inr []"
| "mapSanitizeInput (pkg # packages) =
     (case sanitizeInput pkg of
        Inl e \<Rightarrow> Inl e
      | Inr safe \<Rightarrow>
          (case mapSanitizeInput packages of Inl e \<Rightarrow> Inl e | Inr rest \<Rightarrow> Inr (safe # rest)))"

text \<open>
  How the command ends: \<open>Installed\<close> is the normal return of line 163, \<open>Exit1 e\<close> the
  \<open>catch\<close> of lines 164-167 (the error is logged, then \<open>process.exit(1)\<close>), \<open>Stalled\<close> an
  \<open>await\<close> that never ends.
\<close>

datatype status = Installed | Exit1 error | Stalled

definition finish :: "unit outcome \<times> world \<Rightarrow> status option \<times> world" where
  "finish r =
     (case r of
        (Resolved u, w) \<Rightarrow> (Some Installed, w)
      | (Rejected e, w) \<Rightarrow> (Some (Exit1 e), w)
      | (Unsettled, w) \<Rightarrow> (Some Stalled, w))"

definition installPackages ::
  "env \<Rightarrow> string list \<Rightarrow> options \<Rightarrow> nat list \<Rightarrow> world \<Rightarrow> status option \<times> world" where
  "installPackages env packages options sched w =
     (case mapSanitizeInput packages of
        Inl e \<Rightarrow> (Some (Exit1 e), w)
      | Inr safePackages \<Rightarrow>
          (case exec (if \<not> global options then ensurePackageJson env else Return ()) w of
             (Rejected e, w1) \<Rightarrow> (Some (Exit1 e), w1)
           | (Unsettled, w1) \<Rightarrow> (Some Stalled, w1)
           | (Resolved u, w1) \<Rightarrow>
               (case promise_all sched (map (installOne env options) safePackages) w1 of
                  (None, w2) \<Rightarrow> (None, w2)
                | (Some (Rejected e), w2) \<Rightarrow> (Some (Exit1 e), w2)
                | (Some Unsettled, w2) \<Rightarrow> (Some Stalled, w2)
                | (Some (Resolved results), w2) \<Rightarrow>
                    (let cached = filter (\<lambda>r. r \<noteq> []) results;
                         uncached = filter (\<lambda>pkg. pkg \<notin> set cached) safePackages
                     in finish (exec (if uncached \<noteq> []
                                      then execPromise env
                                             (''add '' @ concat (map (\<lambda>pkg. pkg @ '' '') uncached)
                                                @ flags options) 3
                                      else Return ()) w2)))))"

subsection \<open>A registry with one package\<close>

text \<open>
  A small instance for the examples: the registry \<open>reg\<close> knows the package \<open>a\<close>, whose only
  version \<open>1\<close> has the tarball \<open>x\<close>; the digest of a file is its content; the manifest
  codec knows the empty manifest and the manifest with the entry of \<open>a@1\<close>;
  \<open>logger.info\<close> returns \<open>undefined\<close>, as pino's does.
\<close>

definition entry_a :: entry where
  "entry_a = \<lparr>path = ''/c/a-1.tgz'', integrity = ''sha512-x''\<rparr>"

definition env0 :: env where
  "env0 = \<lparr>CACHE_DIR = ''/c'', REGISTRY_URL = ''reg'', BUN_PATH = ''bun'', cwd = ''/p'',
     sha512_base64 = (\<lambda>bytes. bytes),
     JSON_parse = (\<lambda>text. if text = ''{a@1}'' then Some [(''a@1'', entry_a)]
                           else if text = ''{}'' then Some [] else None),
     JSON_stringify = (\<lambda>m. if m = [] then ''{}'' else ''{a@1}''),
     defaultPkgJson = ''{}'', logger_info = False\<rparr>"

definition data_a :: pkgdata where
  "data_a = \<lparr>dist_tags_latest = Some ''1'',
     versions = Some [''1'' \<mapsto> Some \<lparr>tarball = Some ''reg/a-1.tgz'', dist_integrity = Some ''sha512-x''\<rparr>]\<rparr>"

definition http0 :: "string \<Rightarrow> response option" where
  "http0 url =
     (if url = ''reg/a'' then Some \<lparr>ok = True, res_json = Some data_a, res_body = []\<rparr>
      else if url = ''reg/a-1.tgz'' then Some \<lparr>ok = True, res_json = None, res_body = ''x''\<rparr>
      else None)"

text \<open>The world of a first run: nothing on disk, nothing in the memory cache.\<close>

definition w0 :: world where
  "w0 = \<lparr>http = http0, files = Map.empty, write_error = (\<lambda>p. None), shell = (\<lambda>c. True),
          versionCache = Map.empty, trace = []\<rparr>"

text \<open>
  Other worlds: the tarball is on disk but not in the manifest (\<open>w_stored\<close>); it is on
  disk and in the manifest (\<open>w_cached\<close>), and the version is in the memory cache as well
  (\<open>w_hit\<close>); the file that
  the manifest records has been tampered with (\<open>w_corrupt\<close>); the tarball host serves
  other bytes than the registry announces (\<open>w_badhost\<close>).
\<close>

definition w_stored :: world where
  "w_stored = w0\<lparr>files := [''/c/a-1.tgz'' \<mapsto> ''x'']\<rparr>"


definition w_cached :: world where
  "w_cached = w0\<lparr>files := [''/c/a-1.tgz'' \<mapsto> ''x'', ''/c/cache-manifest.json'' \<mapsto> ''{a@1}'']\<rparr>"

definition w_corrupt :: world where
  "w_corrupt = w0\<lparr>files := [''/c/a-1.tgz'' \<mapsto> ''tampered'',
                               ''/c/cache-manifest.json'' \<mapsto> ''{a@1}'']\<rparr>"

definition w_badhost :: world where
  "w_badhost = w0\<lparr>http := http0(''reg/a-1.tgz'' \<mapsto> \<lparr>ok = True, res_json = None, res_body = ''y''\<rparr>)\<rparr>"

text \<open>
  A registry that answers 404 with a JSON body for \<open>b\<close>, and whose document for \<open>c\<close> has
  no \<open>dist-tags\<close> and a version \<open>2\<close> without \<open>dist\<close>.
\<close>

definition http1 :: "string \<Rightarrow> response option" where
  "http1 url =
     (if url = ''reg/b''
      then Some \<lparr>ok = False, res_json = Some \<lparr>dist_tags_latest = None, versions = None\<rparr>,
                  res_body = []\<rparr>
      else if url = ''reg/c''
      then Some \<lparr>ok = True,
                  res_json = Some \<lparr>dist_tags_latest = None, versions = Some [''2'' \<mapsto> None]\<rparr>,
                  res_body = []\<rparr>
      else http0 url)"

definition w1 :: world where
  "w1 = w0\<lparr>http := http1\<rparr>"

subsection \<open>Tasks in lock-step\<close>

text \<open>
  The schedule that resumes the \<open>n\<close> tasks in turn, \<open>rounds\<close> times: what happens when
  the operations of all the tasks take the same time.
\<close>

definition lockstep :: "nat \<Rightarrow> nat \<Rightarrow> nat list" where
  "lockstep n rounds = concat (replicate rounds [0..<n])"

text \<open>
  \<open>follows R Q ess P\<close>: for as many steps as \<open>ess\<close> is long, and in every world that satisfies
  \<open>R\<close>, the task \<open>P\<close> is suspended, its next step logs the calls of the head of \<open>ess\<close>,
  keeps \<open>R\<close> and does not throw; after these steps the task satisfies \<open>Q\<close>.
\<close>

primrec follows :: "(world \<Rightarrow> bool) \<Rightarrow> ('a prog \<Rightarrow> bool) \<Rightarrow> event list list \<Rightarrow> 'a prog \<Rightarrow> bool" where
  "follows R Q [] P = Q P"
| "follows R Q (es # ess) P =
     (suspended P \<and>
      (\<forall>w. R w \<longrightarrow>
         (case step P w of (P', w') \<Rightarrow>
            trace w' = trace w @ es \<and> R w' \<and> rejection [P'] = None \<and> follows R Q ess P')))"

text \<open>
  \<open>evicting p P\<close>: the task \<open>P\<close> is suspended on the eviction of \<open>p\<close>. Resumed where \<open>p\<close> has
  no file it throws \<open>ENOENT\<close>; resumed where \<open>p\<close> has a file it deletes it and goes on.
\<close>

definition evicting :: "filepath \<Rightarrow> 'a prog \<Rightarrow> bool" where
  "evicting p P =
     (suspended P \<and>
      (\<forall>w. files w p = None \<longrightarrow> fst (step P w) = Throw (ENOENT p)) \<and>
      (\<forall>w. files w p \<noteq> None \<longrightarrow>
         rejection [fst (step P w)] = None \<and> files (snd (step P w)) p = None))"


text \<open>Two worlds with the same network and the same disk.\<close>

definition same_outside :: "world \<Rightarrow> world \<Rightarrow> bool" where
  "same_outside w w' = (http w' = http w \<and> files w' = files w \<and>
                        write_error w' = write_error w)"

section \<open>Properties\<close>

subsection \<open>Running one program\<close>

lemma exec_bind:
  "exec (bind p f) w =
     (case exec p w of
        (Resolved a, w') \<Rightarrow> exec (f a) w'
      | (Rejected e, w') \<Rightarrow> (Rejected e, w')
      | (Unsettled, w') \<Rightarrow> (Unsettled, w'))"
  by (induction p arbitrary: w) simp_all

lemma exec_catch:
  "exec (catch p h) w =
     (case exec p w of
        (Resolved a, w') \<Rightarrow> (Resolved a, w')
      | (Rejected e, w') \<Rightarrow> exec (h e) w'
      | (Unsettled, w') \<Rightarrow> (Unsettled, w'))"
  by (induction p arbitrary: w) simp_all

lemma exec_fetch:
  "exec (fetch url) w =
     (case http w url of None \<Rightarrow> Rejected (FetchFailed url) | Some res \<Rightarrow> Resolved res,
      log (HttpGet url) w)"
  by (simp add: fetch_def split: option.splits)

lemma exec_json:
  "exec (json res) w =
     (case res_json res of None \<Rightarrow> Rejected InvalidJson | Some d \<Rightarrow> Resolved d, w)"
  by (simp add: json_def split: option.splits)

lemma exec_mkdir: "exec (mkdir p) w = (Resolved (), log (Mkdir p) w)"
  by (simp add: mkdir_def)

lemma exec_access: "exec (access p) w = (Resolved (files w p \<noteq> None), log (Access p) w)"
  by (simp add: access_def)

lemma exec_readFile:
  "exec (readFile p) w =
     (case files w p of None \<Rightarrow> Rejected (ENOENT p) | Some b \<Rightarrow> Resolved b, log (ReadFile p) w)"
  by (simp add: readFile_def split: option.splits)

lemma exec_unlink:
  "exec (unlink p) w =
     (if files w p = None then Rejected (ENOENT p) else Resolved (),
      log (Unlink p) (w\<lparr>files := (files w)(p := None)\<rparr>))"
  by (simp add: unlink_def)

lemma exec_writeFile:
  "exec (writeFile p s) w =
     (case write_error w p of
        None \<Rightarrow> (Resolved (), log (WriteFile p) (w\<lparr>files := (files w)(p \<mapsto> s)\<rparr>))
      | Some err \<Rightarrow> (Rejected err, log (WriteFile p) w))"
  by (simp add: writeFile_def split: option.splits)

lemma exec_pipeToFile:
  "exec (pipeToFile env body p) w =
     (case write_error w p of
        None \<Rightarrow> (if logger_info env then Resolved () else Unsettled,
                 log (FinishWrite p) (log (OpenWrite p) (w\<lparr>files := (files w)(p \<mapsto> body)\<rparr>)))
      | Some err \<Rightarrow> (Rejected err, log (OpenWrite p) w))"
  by (simp add: pipeToFile_def finishStream_def log_def split: option.splits)

lemma exec_loadManifest:
  "exec (loadManifest env) w = (Resolved (manifestOf env w), log (ReadFile (MANIFEST_PATH env)) w)"
  by (simp add: loadManifest_def manifestOf_def exec_catch exec_bind exec_readFile
      split: option.splits)

lemma exec_saveManifest:
  "exec (saveManifest env m) w =
     (case write_error w (MANIFEST_PATH env) of
        None \<Rightarrow> (Resolved (), log (WriteFile (MANIFEST_PATH env))
                           (w\<lparr>files := (files w)(MANIFEST_PATH env \<mapsto> JSON_stringify env m)\<rparr>))
      | Some err \<Rightarrow> (Rejected err, log (WriteFile (MANIFEST_PATH env)) w))"
  by (simp add: saveManifest_def exec_writeFile)

lemmas exec_simps = exec_bind exec_fetch exec_json exec_mkdir exec_access exec_readFile
  exec_unlink exec_pipeToFile exec_loadManifest exec_saveManifest

lemma cachePath_neq_manifest: "cachePathOf env pkg v \<noteq> MANIFEST_PATH env"
proof
  assume "cachePathOf env pkg v = MANIFEST_PATH env"
  then have "last (cachePathOf env pkg v) = last (MANIFEST_PATH env)" by simp
  then show False by (simp add: cachePathOf_def MANIFEST_PATH_def path_join_def)
qed

subsection \<open>Names are checked first\<close>

lemma mapSanitizeInput_invalid:
  "bad \<in> set packages \<Longrightarrow> sanitizeInput bad = Inl e
     \<Longrightarrow> \<exists>b. mapSanitizeInput packages = Inl (InvalidPackage b)"
proof (induction packages)
  case Nil
  then show ?case by simp
next
  case (Cons p ps)
  show ?case
  proof (cases "sanitizeInput p")
    case (Inl e')
    then show ?thesis by (auto simp: sanitizeInput_def split: if_splits)
  next
    case (Inr q)
    with Cons have "bad \<in> set ps" by auto
    with Cons obtain b where "mapSanitizeInput ps = Inl (InvalidPackage b)" by blast
    with Inr show ?thesis by simp
  qed
qed

text \<open>
  C6. A list of packages with a name that has a character outside the letters, the digits
  and \<open>- _ @ /\<close>: \<open>sanitizeInput\<close> refuses that name, and \<open>installPackages\<close> ends with
  \<open>process.exit(1)\<close> on an "Invalid package" error in the world it started in: the log of
  calls is as it was, so nothing was fetched, read or written, under every schedule.
\<close>

theorem invalid_name_rejected_before_io:
  assumes "pkg \<in> set packages" and "c \<in> set pkg"
    and "c \<notin> set ''abcdefghijklmnopqrstuvwxyzABCDEFGHIJKLMNOPQRSTUVWXYZ0123456789-_@/''"
  shows "sanitizeInput pkg = Inl (InvalidPackage pkg) \<and>
         (\<exists>bad. installPackages env packages options sched w
                  = (Some (Exit1 (InvalidPackage bad)), w))"
proof -
  from assms(2,3) have "\<not> list_all name_char pkg"
    by (auto simp: list_all_iff name_char_def)
  then have bad: "sanitizeInput pkg = Inl (InvalidPackage pkg)"
    by (simp add: sanitizeInput_def)
  from mapSanitizeInput_invalid[OF assms(1) bad]
  obtain b where "mapSanitizeInput packages = Inl (InvalidPackage b)" by blast
  then have "installPackages env packages options sched w = (Some (Exit1 (InvalidPackage b)), w)"
    by (simp add: installPackages_def)
  with bad show ?thesis by blast
qed

theorem invalid_name_rejected_before_io_witness:
  "sanitizeInput ''../evil'' = Inl (InvalidPackage ''../evil'') \<and>
   (\<exists>bad. installPackages env0 [''a'', ''../evil''] \<lparr>global = False, force = False, legacyPeerDeps = False\<rparr>
            [0, 1, 0, 1] w0 = (Some (Exit1 (InvalidPackage bad)), w0))"
  using invalid_name_rejected_before_io[of "''../evil''" "[''a'', ''../evil'']" "CHR ''.''"
      env0 "\<lparr>global = False, force = False, legacyPeerDeps = False\<rparr>" "[0, 1, 0, 1]" w0]
  by simp

subsection \<open>The example registry, evaluated\<close>

lemma env0_simps:
  "CACHE_DIR env0 = ''/c''" "REGISTRY_URL env0 = ''reg''" "BUN_PATH env0 = ''bun''"
  "cwd env0 = ''/p''" "sha512_base64 env0 = (\<lambda>bytes. bytes)" "logger_info env0 = False"
  "MANIFEST_PATH env0 = ''/c/cache-manifest.json''"
  "cachePathOf env0 ''a'' ''1'' = ''/c/a-1.tgz''"
  "packageUrl env0 ''a'' = ''reg/a''"
  "digest env0 bytes = ''sha512-'' @ bytes"
  "JSON_stringify env0 m = (if m = [] then ''{}'' else ''{a@1}'')"
  "JSON_parse env0 text = (if text = ''{a@1}'' then Some [(''a@1'', entry_a)]
                           else if text = ''{}'' then Some [] else None)"
  by (simp_all add: env0_def MANIFEST_PATH_def path_join_def cachePathOf_def digest_def
        packageUrl_def)

lemma w0_simps:
  "http w0 = http0" "files w0 = Map.empty" "write_error w0 = (\<lambda>p. None)" "shell w0 = (\<lambda>c. True)"
  "versionCache w0 = Map.empty" "trace w0 = []"
  by (simp_all add: w0_def)

lemma http0_simps:
  "http0 ''reg/a'' = Some \<lparr>ok = True, res_json = Some data_a, res_body = []\<rparr>"
  "http0 ''reg/a-1.tgz'' = Some \<lparr>ok = True, res_json = None, res_body = ''x''\<rparr>"
  by (simp_all add: http0_def)

lemma registry_a:
  "http w0 (packageUrl env0 ''a'')
     = Some \<lparr>ok = True, res_json = Some data_a, res_body = []\<rparr>"
  "res_json \<lparr>ok = True, res_json = Some data_a, res_body = []\<rparr> = Some data_a"
  "(if ''1'' = ''latest'' then dist_tags_latest data_a else Some ''1'') = Some ''1''"
  "versions data_a
     = Some [''1'' \<mapsto> Some \<lparr>tarball = Some ''reg/a-1.tgz'', dist_integrity = Some ''sha512-x''\<rparr>]"
  "[''1'' \<mapsto> Some \<lparr>tarball = Some ''reg/a-1.tgz'', dist_integrity = Some ''sha512-x''\<rparr>] ''1''
     = Some (Some \<lparr>tarball = Some ''reg/a-1.tgz'', dist_integrity = Some ''sha512-x''\<rparr>)"
  by (simp_all add: env0_simps w0_simps http0_simps data_a_def)

subsection \<open>\<open>cachePackage\<close>, run alone\<close>

text \<open>
  The registry answers with a document that has the version and its \<open>dist\<close>, and a file is
  at the canonical path: the whole run of \<open>cachePackage\<close>.
\<close>

lemma cachePackage_present:
  assumes "http w (packageUrl env pkg) = Some res"
    and "res_json res = Some data"
    and "(if version = ''latest'' then dist_tags_latest data else Some version) = Some pkgVersion"
    and "versions data = Some vs"
    and "vs pkgVersion = Some (Some dist)"
    and "files w (cachePathOf env pkg pkgVersion) = Some bytes"
  shows "exec (cachePackage env pkg version) w =
     (let cachePath = cachePathOf env pkg pkgVersion;
          evs = [HttpGet (packageUrl env pkg), Mkdir (CACHE_DIR env),
                 Access cachePath, ReadFile cachePath]
      in if Some (digest env bytes) \<noteq> dist_integrity dist
         then (Rejected (IntegrityFailed pkg pkgVersion),
               w\<lparr>files := (files w)(cachePath := None), trace := trace w @ evs @ [Unlink cachePath]\<rparr>)
         else (case write_error w (MANIFEST_PATH env) of
           None \<Rightarrow> (Resolved cachePath,
                 w\<lparr>files := (files w)(MANIFEST_PATH env \<mapsto>
                           JSON_stringify env (AList.update (keyOf pkg pkgVersion)
                              \<lparr>path = cachePath, integrity = digest env bytes\<rparr> (manifestOf env w))),
                   trace := trace w @ evs @ [ReadFile (MANIFEST_PATH env), WriteFile (MANIFEST_PATH env)]\<rparr>)
         | Some err \<Rightarrow> (Rejected err,
                 w\<lparr>trace := trace w @ evs @ [ReadFile (MANIFEST_PATH env), WriteFile (MANIFEST_PATH env)]\<rparr>)))"
  using assms cachePath_neq_manifest[of env pkg pkgVersion]
  by (simp add: cachePackage_def exec_simps log_def Let_def manifestOf_def split: option.splits)

text \<open>
  No file is at the canonical path, the tarball is fetched and the stream can write: with
  a \<open>logger.info\<close> that returns a falsy value the promise of line 84 is never resolved, and
  the run stops there, the bytes on disk unverified.
\<close>

lemma cachePackage_absent:
  assumes "http w (packageUrl env pkg) = Some res"
    and "res_json res = Some data"
    and "(if version = ''latest'' then dist_tags_latest data else Some version) = Some pkgVersion"
    and "versions data = Some vs"
    and "vs pkgVersion = Some (Some dist)"
    and "files w (cachePathOf env pkg pkgVersion) = None"
    and "tarball dist = Some url"
    and "http w url = Some tb"
    and "write_error w (cachePathOf env pkg pkgVersion) = None"
    and "\<not> logger_info env"
  shows "exec (cachePackage env pkg version) w =
     (let cachePath = cachePathOf env pkg pkgVersion
      in (Unsettled,
          w\<lparr>files := (files w)(cachePath \<mapsto> res_body tb),
            trace := trace w @ [HttpGet (packageUrl env pkg), Mkdir (CACHE_DIR env),
                 Access cachePath, HttpGet url, OpenWrite cachePath, FinishWrite cachePath]\<rparr>))"
  using assms
  by (simp add: cachePackage_def download_def exec_simps log_def Let_def)

text \<open>
  With a \<open>logger.info\<close> that returned a truthy value, the run would go on to the
  verification of the bytes it has just written.
\<close>

lemma cachePackage_absent_if_resolved:
  assumes "http w (packageUrl env pkg) = Some res"
    and "res_json res = Some data"
    and "(if version = ''latest'' then dist_tags_latest data else Some version) = Some pkgVersion"
    and "versions data = Some vs"
    and "vs pkgVersion = Some (Some dist)"
    and "files w (cachePathOf env pkg pkgVersion) = None"
    and "tarball dist = Some url"
    and "http w url = Some tb"
    and "write_error w (cachePathOf env pkg pkgVersion) = None"
    and "logger_info env"
    and "Some (digest env (res_body tb)) \<noteq> dist_integrity dist"
  shows "exec (cachePackage env pkg version) w =
     (let cachePath = cachePathOf env pkg pkgVersion
      in (Rejected (IntegrityFailed pkg pkgVersion),
          w\<lparr>files := (files w)(cachePath := None),
            trace := trace w @ [HttpGet (packageUrl env pkg), Mkdir (CACHE_DIR env),
                 Access cachePath, HttpGet url, OpenWrite cachePath, FinishWrite cachePath,
                 ReadFile cachePath, Unlink cachePath]\<rparr>))"
  using assms
  by (simp add: cachePackage_def download_def exec_simps log_def Let_def)

text \<open>A write of the manifest comes after a read of the canonical path that verified.\<close>

lemma cachePackage_registers_verified:
  assumes "exec (cachePackage env pkg version) w = (r, w')"
    and "trace w' = trace w @ evs"
    and "WriteFile (MANIFEST_PATH env) \<in> set evs"
  shows "\<exists>res data pkgVersion vs dist bytes pre.
           http w (packageUrl env pkg) = Some res \<and> res_json res = Some data \<and>
           (if version = ''latest'' then dist_tags_latest data else Some version) = Some pkgVersion \<and>
           versions data = Some vs \<and> vs pkgVersion = Some (Some dist) \<and>
           files w' (cachePathOf env pkg pkgVersion) = Some bytes \<and>
           dist_integrity dist = Some (digest env bytes) \<and>
           evs = pre @ [ReadFile (cachePathOf env pkg pkgVersion), ReadFile (MANIFEST_PATH env),
                        WriteFile (MANIFEST_PATH env)]"
  using assms cachePath_neq_manifest[of env pkg]
  by (auto simp: cachePackage_def download_def exec_simps log_def Let_def
         split: option.splits if_splits)

text \<open>
  C10. The registry answers with a document that has the version and its \<open>dist\<close>. When a
  file is already at the canonical path, \<open>cachePackage\<close> fetches no tarball: it reads the
  file and compares its digest with the registry's \<open>integrity\<close>. On a mismatch it unlinks
  the file and throws "Integrity check failed", the manifest untouched; on a match it
  writes the entry. And in every run, with or without a download, a write of the manifest
  comes right after a read of the canonical path that found bytes with the registry's
  digest, which are still there at the end.
\<close>

theorem cachePackage_verifies_before_registering:
  assumes "http w (packageUrl env pkg) = Some res"
    and "res_json res = Some data"
    and "(if version = ''latest'' then dist_tags_latest data else Some version) = Some pkgVersion"
    and "versions data = Some vs"
    and "vs pkgVersion = Some (Some dist)"
    and "cachePath = cachePathOf env pkg pkgVersion"
    and "evs = [HttpGet (packageUrl env pkg), Mkdir (CACHE_DIR env),
                Access cachePath, ReadFile cachePath]"
  shows "(files w cachePath = Some bytes \<longrightarrow>
          exec (cachePackage env pkg version) w =
            (if Some (digest env bytes) \<noteq> dist_integrity dist
             then (Rejected (IntegrityFailed pkg pkgVersion),
                   w\<lparr>files := (files w)(cachePath := None),
                     trace := trace w @ evs @ [Unlink cachePath]\<rparr>)
             else (case write_error w (MANIFEST_PATH env) of
               None \<Rightarrow> (Resolved cachePath,
                     w\<lparr>files := (files w)(MANIFEST_PATH env \<mapsto>
                               JSON_stringify env (AList.update (keyOf pkg pkgVersion)
                                 \<lparr>path = cachePath, integrity = digest env bytes\<rparr> (manifestOf env w))),
                       trace := trace w @ evs @
                         [ReadFile (MANIFEST_PATH env), WriteFile (MANIFEST_PATH env)]\<rparr>)
             | Some err \<Rightarrow> (Rejected err,
                     w\<lparr>trace := trace w @ evs @
                         [ReadFile (MANIFEST_PATH env), WriteFile (MANIFEST_PATH env)]\<rparr>)))) \<and>
         (exec (cachePackage env pkg version) w = (r, w') \<and> trace w' = trace w @ new \<and>
          WriteFile (MANIFEST_PATH env) \<in> set new \<longrightarrow>
            (\<exists>stored pre. files w' cachePath = Some stored \<and>
               dist_integrity dist = Some (digest env stored) \<and>
               new = pre @ [ReadFile cachePath, ReadFile (MANIFEST_PATH env),
                            WriteFile (MANIFEST_PATH env)]))"
proof -
  have A: "files w cachePath = Some bytes \<longrightarrow>
          exec (cachePackage env pkg version) w =
            (if Some (digest env bytes) \<noteq> dist_integrity dist
             then (Rejected (IntegrityFailed pkg pkgVersion),
                   w\<lparr>files := (files w)(cachePath := None),
                     trace := trace w @ evs @ [Unlink cachePath]\<rparr>)
             else (case write_error w (MANIFEST_PATH env) of
               None \<Rightarrow> (Resolved cachePath,
                     w\<lparr>files := (files w)(MANIFEST_PATH env \<mapsto>
                               JSON_stringify env (AList.update (keyOf pkg pkgVersion)
                                 \<lparr>path = cachePath, integrity = digest env bytes\<rparr> (manifestOf env w))),
                       trace := trace w @ evs @
                         [ReadFile (MANIFEST_PATH env), WriteFile (MANIFEST_PATH env)]\<rparr>)
             | Some err \<Rightarrow> (Rejected err,
                     w\<lparr>trace := trace w @ evs @
                         [ReadFile (MANIFEST_PATH env), WriteFile (MANIFEST_PATH env)]\<rparr>)))"
    using cachePackage_present[OF assms(1-5)] assms(6,7)
    by (simp add: Let_def cong: option.case_cong)
  have B: "exec (cachePackage env pkg version) w = (r, w') \<and> trace w' = trace w @ new \<and>
          WriteFile (MANIFEST_PATH env) \<in> set new \<longrightarrow>
            (\<exists>stored pre. files w' cachePath = Some stored \<and>
               dist_integrity dist = Some (digest env stored) \<and>
               new = pre @ [ReadFile cachePath, ReadFile (MANIFEST_PATH env),
                            WriteFile (MANIFEST_PATH env)])"
  proof (intro impI, elim conjE)
    assume h: "exec (cachePackage env pkg version) w = (r, w')" "trace w' = trace w @ new"
      "WriteFile (MANIFEST_PATH env) \<in> set new"
    from cachePackage_registers_verified[OF h] assms(1-6)
    show "\<exists>stored pre. files w' cachePath = Some stored \<and>
               dist_integrity dist = Some (digest env stored) \<and>
               new = pre @ [ReadFile cachePath, ReadFile (MANIFEST_PATH env),
                            WriteFile (MANIFEST_PATH env)]"
      by (auto split: if_splits)
  qed
  show ?thesis by (rule conjI[OF A B])
qed

theorem cachePackage_verifies_before_registering_witness:
  "exec (cachePackage env0 ''a'' ''1'') w_stored =
     (Resolved ''/c/a-1.tgz'',
      w_stored\<lparr>files := [''/c/a-1.tgz'' \<mapsto> ''x'', ''/c/cache-manifest.json'' \<mapsto> ''{a@1}''],
        trace := [HttpGet ''reg/a'', Mkdir ''/c'', Access ''/c/a-1.tgz'', ReadFile ''/c/a-1.tgz'',
                  ReadFile ''/c/cache-manifest.json'', WriteFile ''/c/cache-manifest.json'']\<rparr>)"
proof -
  have h1: "http w_stored (packageUrl env0 ''a'')
              = Some \<lparr>ok = True, res_json = Some data_a, res_body = []\<rparr>"
    using registry_a(1) by (simp add: w_stored_def w0_simps)
  have h6: "files w_stored (cachePathOf env0 ''a'' ''1'') = Some ''x''"
    by (simp add: env0_simps w_stored_def)
  from cachePackage_verifies_before_registering[OF h1 registry_a(2-5) refl refl,
      THEN conjunct1, rule_format, OF h6]
  show ?thesis
    by (simp add: env0_simps w0_simps w_stored_def manifestOf_def keyOf_def)
qed

subsection \<open>The manifest on disk\<close>

text \<open>
  C7. \<open>loadManifest\<close> never throws. When the manifest file is absent, or present with a
  text that \<open>JSON.parse\<close> refuses, it yields the empty manifest. And when \<open>JSON.parse\<close>
  gives back the manifest that \<open>JSON.stringify\<close> has written, a manifest with the entry
  put under its key, once saved, is what the next load yields, the entry under its key.
\<close>

theorem loadManifest_resilient_and_roundtrip:
  "(\<exists>m. fst (exec (loadManifest env) w) = Resolved m) \<and>
   (files w (MANIFEST_PATH env) = None \<or>
      (\<exists>text. files w (MANIFEST_PATH env) = Some text \<and> JSON_parse env text = None)
     \<longrightarrow> fst (exec (loadManifest env) w) = Resolved []) \<and>
   (JSON_parse env (JSON_stringify env (AList.update key e m)) = Some (AList.update key e m) \<and>
    exec (saveManifest env (AList.update key e m)) w = (Resolved (), w')
     \<longrightarrow> fst (exec (loadManifest env) w') = Resolved (AList.update key e m) \<and>
         map_of (AList.update key e m) key = Some e)"
  by (auto simp: exec_loadManifest exec_saveManifest manifestOf_def log_def update_conv'
        split: if_splits option.splits)

theorem loadManifest_resilient_and_roundtrip_witness:
  "fst (exec (loadManifest env0) w0) = Resolved [] \<and>
   fst (exec (loadManifest env0) (w0\<lparr>files := [''/c/cache-manifest.json'' \<mapsto> ''{{'']\<rparr>)) = Resolved [] \<and>
   fst (exec (loadManifest env0)
          (snd (exec (saveManifest env0 (AList.update ''a@1'' entry_a [])) w0)))
     = Resolved [(''a@1'', entry_a)]"
proof -
  have a: "files w0 (MANIFEST_PATH env0) = None \<or>
      (\<exists>text. files w0 (MANIFEST_PATH env0) = Some text \<and> JSON_parse env0 text = None)"
    by (simp add: w0_simps)
  have b: "files (w0\<lparr>files := [''/c/cache-manifest.json'' \<mapsto> ''{{'']\<rparr>) (MANIFEST_PATH env0) = None \<or>
      (\<exists>text. files (w0\<lparr>files := [''/c/cache-manifest.json'' \<mapsto> ''{{'']\<rparr>) (MANIFEST_PATH env0)
                 = Some text \<and> JSON_parse env0 text = None)"
    by (simp add: env0_simps)
  have c: "JSON_parse env0 (JSON_stringify env0 (AList.update ''a@1'' entry_a []))
             = Some (AList.update ''a@1'' entry_a []) \<and>
           exec (saveManifest env0 (AList.update ''a@1'' entry_a [])) w0
             = (Resolved (), snd (exec (saveManifest env0 (AList.update ''a@1'' entry_a [])) w0))"
    by (simp add: env0_simps w0_simps exec_saveManifest)
  from loadManifest_resilient_and_roundtrip[of env0 w0, THEN conjunct2, THEN conjunct1, rule_format, OF a]
       loadManifest_resilient_and_roundtrip[of env0 "w0\<lparr>files := [''/c/cache-manifest.json'' \<mapsto> ''{{'']\<rparr>",
         THEN conjunct2, THEN conjunct1, rule_format, OF b]
       loadManifest_resilient_and_roundtrip[of env0 w0 "''a@1''" entry_a "[]",
         THEN conjunct2, THEN conjunct2, rule_format, OF c]
  show ?thesis by simp
qed

subsection \<open>Eviction\<close>

text \<open>
  C9 fails as the spec has it: the eviction of lines 94 and 112 is \<open>fsPromises.unlink\<close>,
  and to evict a path with no file is an error.
\<close>

theorem evict_absent_counterexample:
  "fst (exec (unlink ''/c/a-1.tgz'') w0) = Rejected (ENOENT ''/c/a-1.tgz'')"
  by (simp add: exec_unlink w0_simps)

subsection \<open>After a download\<close>

text \<open>
  C2, at a failing input. The cache is empty and the tarball host serves \<open>y\<close>, whose digest
  is not the \<open>integrity\<close> that the registry announces. \<open>cachePackage\<close> writes \<open>y\<close> to the
  canonical path and never settles: the \<open>finish\<close> handler of line 86 is
  \<open>logger.info(...) && resolve()\<close>, pino's \<open>logger.info\<close> returns \<open>undefined\<close>, so
  \<open>resolve\<close> is not called. The file is neither verified nor deleted, and no integrity
  error is thrown.
\<close>

theorem cachePackage_download_mismatch_never_settles:
  "exec (cachePackage env0 ''a'' ''1'') w_badhost =
     (Unsettled,
      w_badhost\<lparr>files := [''/c/a-1.tgz'' \<mapsto> ''y''],
        trace := [HttpGet ''reg/a'', Mkdir ''/c'', Access ''/c/a-1.tgz'', HttpGet ''reg/a-1.tgz'',
                  OpenWrite ''/c/a-1.tgz'', FinishWrite ''/c/a-1.tgz'']\<rparr>)"
proof -
  have h1: "http w_badhost (packageUrl env0 ''a'')
              = Some \<lparr>ok = True, res_json = Some data_a, res_body = []\<rparr>"
    by (simp add: w_badhost_def env0_simps http0_simps)
  have h6: "files w_badhost (cachePathOf env0 ''a'' ''1'') = None"
    by (simp add: w_badhost_def w0_simps)
  have h7: "tarball \<lparr>tarball = Some ''reg/a-1.tgz'', dist_integrity = Some ''sha512-x''\<rparr>
              = Some ''reg/a-1.tgz''"
    by simp
  have h8: "http w_badhost ''reg/a-1.tgz'' = Some \<lparr>ok = True, res_json = None, res_body = ''y''\<rparr>"
    by (simp add: w_badhost_def)
  have h9: "write_error w_badhost (cachePathOf env0 ''a'' ''1'') = None"
    by (simp add: w_badhost_def w0_simps)
  have h10: "\<not> logger_info env0"
    by (simp add: env0_simps)
  from cachePackage_absent[OF h1 registry_a(2-5) h6 h7 h8 h9 h10]
  show ?thesis
    by (simp add: env0_simps w_badhost_def w0_simps Let_def)
qed

subsection \<open>A hit in the manifest\<close>

text \<open>What \<open>getCachedPackage\<close> does with an entry, by the bytes at the recorded path.\<close>

lemma getCachedPackage_entry:
  assumes "map_of (manifestOf env w) (keyOf pkg version) = Some e"
    and "files w (path e) = Some bytes"
  shows "exec (getCachedPackage env pkg version) w =
     (if digest env bytes = integrity e
      then (Resolved (Some (path e)),
            w\<lparr>trace := trace w @ [ReadFile (MANIFEST_PATH env), ReadFile (path e)]\<rparr>)
      else (case write_error w (MANIFEST_PATH env) of
        None \<Rightarrow> (Resolved None,
              w\<lparr>files := (files w)(path e := None, MANIFEST_PATH env \<mapsto>
                        JSON_stringify env (AList.delete (keyOf pkg version) (manifestOf env w))),
                trace := trace w @ [ReadFile (MANIFEST_PATH env), ReadFile (path e), Unlink (path e),
                                    WriteFile (MANIFEST_PATH env)]\<rparr>)
      | Some err \<Rightarrow> (Rejected err,
              w\<lparr>files := (files w)(path e := None),
                trace := trace w @ [ReadFile (MANIFEST_PATH env), ReadFile (path e), Unlink (path e),
                                    WriteFile (MANIFEST_PATH env)]\<rparr>)))"
  using assms
  by (simp add: getCachedPackage_def exec_simps log_def Let_def split: option.splits)

lemma exec_getPackageVersion_cached:
  assumes "\<not> forceLatest" and "versionCache w pkg = Some version"
  shows "exec (getPackageVersion env pkg forceLatest) w = (Resolved version, w)"
  using assms by (simp add: getPackageVersion_def)

lemma exec_getPackageVersion_fetched:
  assumes "forceLatest \<or> versionCache w pkg = None"
    and "http w (packageUrl env pkg) = Some res"
    and "ok res" and "res_json res = Some data" and "dist_tags_latest data = Some version"
  shows "exec (getPackageVersion env pkg forceLatest) w =
     (Resolved version,
      w\<lparr>versionCache := (versionCache w)(pkg \<mapsto> version),
        trace := trace w @ [HttpGet (packageUrl env pkg)]\<rparr>)"
  using assms by (auto simp: getPackageVersion_def exec_simps log_def)


text \<open>
  On a miss of the memory cache, or with \<open>forceLatest\<close>, a hit in the manifest costs one
  request to the registry and no download.
\<close>

lemma acquire_hit_after_resolution:
  assumes "map_of (manifestOf env w) (keyOf pkg version) = Some e"
    and "files w (path e) = Some bytes"
    and "digest env bytes = integrity e"
    and "path e \<noteq> []"
    and "forceLatest \<or> versionCache w pkg = None"
    and "http w (packageUrl env pkg) = Some res"
    and "ok res" and "res_json res = Some data" and "dist_tags_latest data = Some version"
  shows "exec (acquire env pkg forceLatest) w =
     (Resolved (path e),
      w\<lparr>versionCache := (versionCache w)(pkg \<mapsto> version),
        trace := trace w @ [HttpGet (packageUrl env pkg),
                            ReadFile (MANIFEST_PATH env), ReadFile (path e)]\<rparr>)"
proof -
  let ?w1 = "w\<lparr>versionCache := (versionCache w)(pkg \<mapsto> version),
        trace := trace w @ [HttpGet (packageUrl env pkg)]\<rparr>"
  have m: "map_of (manifestOf env ?w1) (keyOf pkg version) = Some e"
    using assms(1) by (simp add: manifestOf_def)
  have f: "files ?w1 (path e) = Some bytes"
    using assms(2) by simp
  show ?thesis
    using assms(3,4)
    by (simp add: acquire_def exec_bind exec_getPackageVersion_fetched[OF assms(5-9)]
          getCachedPackage_entry[OF m f])
qed

text \<open>
  C4, at a failing input. The manifest records \<open>a@1\<close> at the canonical path and the file
  there has been tampered with; the registry and the tarball host are sound. \<open>acquire\<close>
  unlinks the file, writes the manifest without the entry and downloads the tarball
  again. Then it never settles, for the reason given at C2: the bytes on disk are the
  right ones, and the manifest stays without the entry.
\<close>

theorem acquire_corrupt_hit_never_settles:
  "exec (acquire env0 ''a'' False) w_corrupt =
     (Unsettled,
      w_corrupt\<lparr>files := [''/c/a-1.tgz'' \<mapsto> ''x'', ''/c/cache-manifest.json'' \<mapsto> ''{}''],
        versionCache := [''a'' \<mapsto> ''1''],
        trace := [HttpGet ''reg/a'', ReadFile ''/c/cache-manifest.json'', ReadFile ''/c/a-1.tgz'',
                  Unlink ''/c/a-1.tgz'', WriteFile ''/c/cache-manifest.json'',
                  HttpGet ''reg/a'', Mkdir ''/c'', Access ''/c/a-1.tgz'', HttpGet ''reg/a-1.tgz'',
                  OpenWrite ''/c/a-1.tgz'', FinishWrite ''/c/a-1.tgz'']\<rparr>) \<and>
   manifestOf env0 (snd (exec (acquire env0 ''a'' False) w_corrupt)) = []"
proof -
  let ?w1 = "w_corrupt\<lparr>versionCache := [''a'' \<mapsto> ''1''], trace := [HttpGet ''reg/a'']\<rparr>"
  let ?w2 = "w_corrupt\<lparr>files := [''/c/cache-manifest.json'' \<mapsto> ''{}''],
        versionCache := [''a'' \<mapsto> ''1''],
        trace := [HttpGet ''reg/a'', ReadFile ''/c/cache-manifest.json'', ReadFile ''/c/a-1.tgz'',
                  Unlink ''/c/a-1.tgz'', WriteFile ''/c/cache-manifest.json'']\<rparr>"
  have e1: "exec (getPackageVersion env0 ''a'' False) w_corrupt = (Resolved ''1'', ?w1)"
    by (simp add: getPackageVersion_def exec_simps log_def env0_simps w_corrupt_def w0_simps
          http0_simps data_a_def)
  have m: "map_of (manifestOf env0 ?w1) (keyOf ''a'' ''1'') = Some entry_a"
    by (simp add: manifestOf_def w_corrupt_def env0_simps keyOf_def)
  have f: "files ?w1 (path entry_a) = Some ''tampered''"
    by (simp add: w_corrupt_def entry_a_def)
  have e2: "exec (getCachedPackage env0 ''a'' ''1'') ?w1 = (Resolved None, ?w2)"
    using getCachedPackage_entry[OF m f]
    by (simp add: env0_simps entry_a_def w_corrupt_def w0_simps keyOf_def manifestOf_def
          fun_upd_twist)
  have h1: "http ?w2 (packageUrl env0 ''a'')
              = Some \<lparr>ok = True, res_json = Some data_a, res_body = []\<rparr>"
    by (simp add: w_corrupt_def env0_simps w0_simps http0_simps)
  have h6: "files ?w2 (cachePathOf env0 ''a'' ''1'') = None"
    by (simp add: env0_simps)
  have h7: "tarball \<lparr>tarball = Some ''reg/a-1.tgz'', dist_integrity = Some ''sha512-x''\<rparr>
              = Some ''reg/a-1.tgz''"
    by simp
  have h8: "http ?w2 ''reg/a-1.tgz'' = Some \<lparr>ok = True, res_json = None, res_body = ''x''\<rparr>"
    by (simp add: w_corrupt_def w0_simps http0_simps)
  have h9: "write_error ?w2 (cachePathOf env0 ''a'' ''1'') = None"
    by (simp add: w_corrupt_def w0_simps)
  have h10: "\<not> logger_info env0"
    by (simp add: env0_simps)
  note e3 = cachePackage_absent[OF h1 registry_a(2-5) h6 h7 h8 h9 h10]
  have r: "exec (acquire env0 ''a'' False) w_corrupt =
     (Unsettled,
      w_corrupt\<lparr>files := [''/c/a-1.tgz'' \<mapsto> ''x'', ''/c/cache-manifest.json'' \<mapsto> ''{}''],
        versionCache := [''a'' \<mapsto> ''1''],
        trace := [HttpGet ''reg/a'', ReadFile ''/c/cache-manifest.json'', ReadFile ''/c/a-1.tgz'',
                  Unlink ''/c/a-1.tgz'', WriteFile ''/c/cache-manifest.json'',
                  HttpGet ''reg/a'', Mkdir ''/c'', Access ''/c/a-1.tgz'', HttpGet ''reg/a-1.tgz'',
                  OpenWrite ''/c/a-1.tgz'', FinishWrite ''/c/a-1.tgz'']\<rparr>)"
    unfolding acquire_def exec_bind e1 prod.case outcome.case e2 option.case e3
    by (simp add: env0_simps Let_def fun_upd_twist)
  show ?thesis
    unfolding r by (simp add: manifestOf_def env0_simps)
qed

subsection \<open>What the registry can answer\<close>

lemma getPackageVersion_not_ok:
  assumes "forceLatest \<or> versionCache w pkg = None"
    and "http w (packageUrl env pkg) = Some res" and "\<not> ok res"
  shows "exec (getPackageVersion env pkg forceLatest) w
           = (Rejected (PackageNotFound pkg), w\<lparr>trace := trace w @ [HttpGet (packageUrl env pkg)]\<rparr>)"
  using assms by (auto simp: getPackageVersion_def exec_simps log_def)

lemma getPackageVersion_no_dist_tags:
  assumes "forceLatest \<or> versionCache w pkg = None"
    and "http w (packageUrl env pkg) = Some res" and "ok res"
    and "res_json res = Some data" and "dist_tags_latest data = None"
  shows "exec (getPackageVersion env pkg forceLatest) w
           = (Rejected TypeError, w\<lparr>trace := trace w @ [HttpGet (packageUrl env pkg)]\<rparr>)"
  using assms by (auto simp: getPackageVersion_def exec_simps log_def)

lemma cachePackage_unresolvable:
  assumes "http w (packageUrl env pkg) = Some res" and "res_json res = Some data"
    and "(version = ''latest'' \<and> dist_tags_latest data = None) \<or>
         versions data = None \<or>
         (\<exists>pkgVersion vs.
            (if version = ''latest'' then dist_tags_latest data else Some version) = Some pkgVersion \<and>
            versions data = Some vs \<and> (vs pkgVersion = None \<or> vs pkgVersion = Some None))"
  shows "exec (cachePackage env pkg version) w
           = (Rejected TypeError, w\<lparr>trace := trace w @ [HttpGet (packageUrl env pkg)]\<rparr>)"
  using assms
  by (auto simp: cachePackage_def exec_simps log_def split: option.splits)

text \<open>
  C8, as the code has it. \<open>getPackageVersion\<close> throws "Package not found" when the
  response is not \<open>ok\<close>, throws a \<open>TypeError\<close> when the document has no \<open>dist-tags\<close>, and
  otherwise resolves to the \<open>latest\<close> tag, whatever version is asked for.
  \<open>cachePackage\<close> does not look at the status of the response. It resolves \<open>latest\<close> to
  the \<open>latest\<close> tag and any other version to itself, and ends with one and the same
  \<open>TypeError\<close> when the \<open>dist-tags\<close> (for \<open>latest\<close>), the \<open>versions\<close>, the version or its
  \<open>dist\<close> is missing. When they are there, the file it looks for is the one of the
  resolved version.
\<close>

theorem registry_resolution_errors:
  assumes "http w (packageUrl env pkg) = Some res"
  shows "(forceLatest \<or> versionCache w pkg = None \<longrightarrow>
           (\<not> ok res \<longrightarrow>
              fst (exec (getPackageVersion env pkg forceLatest) w) = Rejected (PackageNotFound pkg)) \<and>
           (ok res \<and> res_json res = Some data \<and> dist_tags_latest data = None \<longrightarrow>
              fst (exec (getPackageVersion env pkg forceLatest) w) = Rejected TypeError) \<and>
           (ok res \<and> res_json res = Some data \<and> dist_tags_latest data = Some latest \<longrightarrow>
              fst (exec (getPackageVersion env pkg forceLatest) w) = Resolved latest)) \<and>
         (res_json res = Some data \<and>
          ((version = ''latest'' \<and> dist_tags_latest data = None) \<or>
           versions data = None \<or>
           (\<exists>pkgVersion vs.
              (if version = ''latest'' then dist_tags_latest data else Some version) = Some pkgVersion \<and>
              versions data = Some vs \<and> (vs pkgVersion = None \<or> vs pkgVersion = Some None)))
          \<longrightarrow> fst (exec (cachePackage env pkg version) w) = Rejected TypeError) \<and>
         (res_json res = Some data \<and>
          (if version = ''latest'' then dist_tags_latest data else Some version) = Some pkgVersion \<and>
          versions data = Some vs \<and> vs pkgVersion = Some (Some dist)
          \<longrightarrow> take 3 (drop (length (trace w)) (trace (snd (exec (cachePackage env pkg version) w))))
                = [HttpGet (packageUrl env pkg), Mkdir (CACHE_DIR env),
                   Access (cachePathOf env pkg pkgVersion)])"
proof -
  have A: "forceLatest \<or> versionCache w pkg = None \<longrightarrow>
           (\<not> ok res \<longrightarrow>
              fst (exec (getPackageVersion env pkg forceLatest) w) = Rejected (PackageNotFound pkg)) \<and>
           (ok res \<and> res_json res = Some data \<and> dist_tags_latest data = None \<longrightarrow>
              fst (exec (getPackageVersion env pkg forceLatest) w) = Rejected TypeError) \<and>
           (ok res \<and> res_json res = Some data \<and> dist_tags_latest data = Some latest \<longrightarrow>
              fst (exec (getPackageVersion env pkg forceLatest) w) = Resolved latest)"
    using assms
    by (auto simp: getPackageVersion_not_ok getPackageVersion_no_dist_tags
          exec_getPackageVersion_fetched)
  have B: "res_json res = Some data \<and>
          ((version = ''latest'' \<and> dist_tags_latest data = None) \<or>
           versions data = None \<or>
           (\<exists>pkgVersion vs.
              (if version = ''latest'' then dist_tags_latest data else Some version) = Some pkgVersion \<and>
              versions data = Some vs \<and> (vs pkgVersion = None \<or> vs pkgVersion = Some None)))
          \<longrightarrow> fst (exec (cachePackage env pkg version) w) = Rejected TypeError"
    using cachePackage_unresolvable[OF assms, of data version] by auto
  have C: "res_json res = Some data \<and>
          (if version = ''latest'' then dist_tags_latest data else Some version) = Some pkgVersion \<and>
          versions data = Some vs \<and> vs pkgVersion = Some (Some dist)
          \<longrightarrow> take 3 (drop (length (trace w)) (trace (snd (exec (cachePackage env pkg version) w))))
                = [HttpGet (packageUrl env pkg), Mkdir (CACHE_DIR env),
                   Access (cachePathOf env pkg pkgVersion)]"
    using assms
    by (auto simp: cachePackage_def download_def exec_simps log_def Let_def
          split: option.splits if_splits)
  show ?thesis by (rule conjI[OF A conjI[OF B C]])
qed

lemma w1_simps:
  "http w1 = http1" "files w1 = Map.empty" "versionCache w1 = Map.empty" "trace w1 = []"
  by (simp_all add: w1_def w0_def)

theorem registry_resolution_errors_witness:
  "fst (exec (getPackageVersion env0 ''b'' False) w1) = Rejected (PackageNotFound ''b'') \<and>
   fst (exec (getPackageVersion env0 ''c'' False) w1) = Rejected TypeError \<and>
   fst (exec (getPackageVersion env0 ''a'' False) w1) = Resolved ''1'' \<and>
   fst (exec (cachePackage env0 ''c'' ''2'') w1) = Rejected TypeError \<and>
   take 3 (trace (snd (exec (cachePackage env0 ''a'' ''1'') w1)))
     = [HttpGet ''reg/a'', Mkdir ''/c'', Access ''/c/a-1.tgz'']"
proof -
  have pu: "packageUrl env0 ''b'' = ''reg/b''" "packageUrl env0 ''c'' = ''reg/c''"
    by (simp_all add: packageUrl_def env0_simps)
  have hb: "http w1 (packageUrl env0 ''b'')
     = Some \<lparr>ok = False, res_json = Some \<lparr>dist_tags_latest = None, versions = None\<rparr>, res_body = []\<rparr>"
    by (simp add: pu w1_simps http1_def)
  have hc: "http w1 (packageUrl env0 ''c'')
     = Some \<lparr>ok = True, res_json = Some \<lparr>dist_tags_latest = None, versions = Some [''2'' \<mapsto> None]\<rparr>,
              res_body = []\<rparr>"
    by (simp add: pu w1_simps http1_def)
  have ha: "http w1 (packageUrl env0 ''a'')
     = Some \<lparr>ok = True, res_json = Some data_a, res_body = []\<rparr>"
    by (simp add: env0_simps w1_simps http1_def http0_simps)
  from registry_resolution_errors[OF hb, of False, THEN conjunct1]
  have 1: "fst (exec (getPackageVersion env0 ''b'' False) w1) = Rejected (PackageNotFound ''b'')"
    by (simp add: w1_simps)
  from registry_resolution_errors[OF hc, of False "\<lparr>dist_tags_latest = None, versions = Some [''2'' \<mapsto> None]\<rparr>",
      THEN conjunct1]
  have 2: "fst (exec (getPackageVersion env0 ''c'' False) w1) = Rejected TypeError"
    by (simp add: w1_simps)
  from registry_resolution_errors[OF ha, of False data_a "''1''", THEN conjunct1]
  have 3: "fst (exec (getPackageVersion env0 ''a'' False) w1) = Resolved ''1''"
    by (simp add: w1_simps data_a_def)
  from registry_resolution_errors[OF hc,
      of _ "\<lparr>dist_tags_latest = None, versions = Some [''2'' \<mapsto> None]\<rparr>" _ "''2''",
      THEN conjunct2, THEN conjunct1]
  have 4: "fst (exec (cachePackage env0 ''c'' ''2'') w1) = Rejected TypeError"
    by simp
  from registry_resolution_errors[OF ha, of _ data_a _ "''1''" "''1''"
      "[''1'' \<mapsto> Some \<lparr>tarball = Some ''reg/a-1.tgz'', dist_integrity = Some ''sha512-x''\<rparr>]"
      "\<lparr>tarball = Some ''reg/a-1.tgz'', dist_integrity = Some ''sha512-x''\<rparr>",
      THEN conjunct2, THEN conjunct2]
  have 5: "take 3 (trace (snd (exec (cachePackage env0 ''a'' ''1'') w1)))
     = [HttpGet ''reg/a'', Mkdir ''/c'', Access ''/c/a-1.tgz'']"
    by (simp add: w1_simps data_a_def env0_simps)
  from 1 2 3 4 5 show ?thesis by simp
qed

text \<open>
  The claim as the spec has it fails. A version that the registry does not have, a
  version without \<open>dist\<close> and a package that the registry does not know end
  \<open>cachePackage\<close> with the same \<open>TypeError\<close>, not with errors of different kinds.
\<close>

theorem registry_error_kinds_counterexample:
  "fst (exec (cachePackage env0 ''a'' ''2'') w1) = Rejected TypeError \<and>
   fst (exec (cachePackage env0 ''c'' ''2'') w1) = Rejected TypeError \<and>
   fst (exec (cachePackage env0 ''b'' ''latest'') w1) = Rejected TypeError"
  by (simp add: cachePackage_def exec_simps log_def env0_simps w1_simps http1_def http0_simps
        data_a_def packageUrl_def)

subsection \<open>Resuming a task\<close>

lemma bind_assoc: "bind (bind p f) g = bind p (\<lambda>a. bind (f a) g)"
  by (induction p) simp_all

lemma suspended_bind: "suspended p \<Longrightarrow> suspended (bind p f)"
  by (cases p) simp_all

lemma suspended_catch: "suspended p \<Longrightarrow> suspended (catch p h)"
  by (cases p) simp_all

lemma run_sync_suspended: "suspended p \<Longrightarrow> run_sync p w = (p, w)"
  by (cases p) simp_all

lemma run_sync_bind:
  "run_sync (bind p f) w =
     (case run_sync p w of
        (Return a, w') \<Rightarrow> run_sync (f a) w'
      | (p', w') \<Rightarrow> (bind p' f, w'))"
  by (induction p arbitrary: w) simp_all

lemma step_bind:
  "suspended p \<Longrightarrow>
   step (bind p f) w =
     (case step p w of
        (Return a, w') \<Rightarrow> run_sync (f a) w'
      | (p', w') \<Rightarrow> (bind p' f, w'))"
  by (cases p) (simp_all add: run_sync_bind)

lemma suspended_prims:
  "suspended (fetch url)" "suspended (json res)" "suspended (mkdir p)" "suspended (access p)"
  "suspended (readFile p)" "suspended (unlink p)" "suspended (writeFile p s)"
  "suspended (pipeToFile env body p)" "suspended (finishStream env body p)"
  "suspended (loadManifest env)" "suspended (saveManifest env m)"
  by (simp_all add: fetch_def json_def mkdir_def access_def readFile_def unlink_def writeFile_def
        pipeToFile_def finishStream_def loadManifest_def saveManifest_def)

lemma step_fetch:
  "step (fetch url) w =
     (case http w url of None \<Rightarrow> Throw (FetchFailed url) | Some res \<Rightarrow> Return res,
      log (HttpGet url) w)"
  by (simp add: fetch_def split: option.splits)

lemma step_json:
  "step (json res) w = (case res_json res of None \<Rightarrow> Throw InvalidJson | Some d \<Rightarrow> Return d, w)"
  by (simp add: json_def split: option.splits)

lemma step_mkdir: "step (mkdir p) w = (Return (), log (Mkdir p) w)"
  by (simp add: mkdir_def)

lemma step_access: "step (access p) w = (Return (files w p \<noteq> None), log (Access p) w)"
  by (simp add: access_def)

lemma step_readFile:
  "step (readFile p) w =
     (case files w p of None \<Rightarrow> Throw (ENOENT p) | Some b \<Rightarrow> Return b, log (ReadFile p) w)"
  by (simp add: readFile_def split: option.splits)

lemma step_unlink:
  "step (unlink p) w =
     (if files w p = None then Throw (ENOENT p) else Return (),
      log (Unlink p) (w\<lparr>files := (files w)(p := None)\<rparr>))"
  by (simp add: unlink_def)

lemma step_pipeToFile:
  "step (pipeToFile env body p) w =
     (case write_error w p of
        None \<Rightarrow> (finishStream env body p, log (OpenWrite p) (w\<lparr>files := (files w)(p \<mapsto> [])\<rparr>))
      | Some err \<Rightarrow> (Throw err, log (OpenWrite p) w))"
  by (simp add: pipeToFile_def run_sync_suspended suspended_prims split: option.splits)

lemma step_finishStream:
  "step (finishStream env body p) w =
     (if logger_info env then Return () else Never,
      log (FinishWrite p) (w\<lparr>files := (files w)(p \<mapsto> body)\<rparr>))"
  by (simp add: finishStream_def)

lemma step_loadManifest:
  "step (loadManifest env) w = (Return (manifestOf env w), log (ReadFile (MANIFEST_PATH env)) w)"
  by (simp add: loadManifest_def readFile_def manifestOf_def split: option.splits)

lemma step_saveManifest:
  "step (saveManifest env m) w =
     (case write_error w (MANIFEST_PATH env) of
        None \<Rightarrow> (Return (), log (WriteFile (MANIFEST_PATH env))
                         (w\<lparr>files := (files w)(MANIFEST_PATH env \<mapsto> JSON_stringify env m)\<rparr>))
      | Some err \<Rightarrow> (Throw err, log (WriteFile (MANIFEST_PATH env)) w))"
  by (simp add: saveManifest_def writeFile_def split: option.splits)

lemma rejection_suspended: "suspended P \<Longrightarrow> rejection (P # ps) = rejection ps"
  by (cases P) simp_all

lemmas step_simps = rejection_suspended bind_assoc step_bind run_sync_suspended suspended_bind suspended_prims
  step_fetch step_json step_mkdir step_access step_readFile step_unlink step_pipeToFile
  step_finishStream step_loadManifest step_saveManifest


text \<open>
  The memory cache is consulted when the task is started; on a miss (or with
  \<open>forceLatest\<close>) the task is suspended on its request to the registry.
\<close>

lemma run_sync_acquire_miss:
  assumes "forceLatest \<or> versionCache w pkg = None"
  shows "run_sync (acquire env pkg forceLatest) w =
     (bind (fetch (packageUrl env pkg)) (\<lambda>res.
        bind (if \<not> ok res then Throw (PackageNotFound pkg)
              else bind (json res) (\<lambda>data.
                case dist_tags_latest data of
                  None \<Rightarrow> Throw TypeError
                | Some version \<Rightarrow>
                    Sync (\<lambda>w. w\<lparr>versionCache := (versionCache w)(pkg \<mapsto> version)\<rparr>)
                      (\<lambda>w. Return version)))
          (\<lambda>version.
            bind (getCachedPackage env pkg version) (\<lambda>cached.
              case cached of
                None \<Rightarrow> cachePackage env pkg version
              | Some cachePath \<Rightarrow>
                  if cachePath = [] then cachePackage env pkg version else Return cachePath))), w)"
  using assms
  by (auto simp: acquire_def getPackageVersion_def step_simps)



subsection \<open>Tasks in lock-step\<close>

lemma rejection_None_iff: "rejection ps = None \<longleftrightarrow> (\<forall>P\<in>set ps. rejection [P] = None)"
proof (induction ps)
  case Nil
  then show ?case by simp
next
  case (Cons P ps)
  then show ?case by (cases P) simp_all
qed

lemma run_append: "run (xs @ ys) c = run ys (run xs c)"
proof (induction xs arbitrary: c)
  case Nil
  then show ?case by simp
next
  case (Cons i xs)
  show ?case
  proof (cases "rejection (fst c) = None")
    case True
    with Cons show ?thesis by simp
  next
    case False
    then have "run ys c = c" by (cases ys) simp_all
    with False show ?thesis by simp
  qed
qed

lemma follows_suspended: "follows R Q (es # ess) P \<Longrightarrow> suspended P"
  by simp

lemma follows_step:
  assumes "follows R Q (es # ess) P" and "R w"
  shows "trace (snd (step P w)) = trace w @ es \<and> R (snd (step P w)) \<and>
         rejection [fst (step P w)] = None \<and> follows R Q ess (fst (step P w))"
proof -
  obtain P' w' where st: "step P w = (P', w')" by (cases "step P w")
  from assms(1) have "\<forall>w. R w \<longrightarrow>
         (case step P w of (P', w') \<Rightarrow>
            trace w' = trace w @ es \<and> R w' \<and> rejection [P'] = None \<and> follows R Q ess P')"
    by simp
  with assms(2) st show ?thesis by fastforce
qed

lemma concat_replicate_snoc: "concat (replicate (Suc k) es) = concat (replicate k es) @ es"
  by (induction k) simp_all

text \<open>One round: the first \<open>k\<close> tasks have made their step, the others have not moved.\<close>

lemma lockstep_prefix:
  assumes "\<forall>P\<in>set ps. follows R Q (es # ess) P" and "R w" and "k \<le> length ps"
  shows "\<exists>ps' w'. run [0..<k] (ps, w) = (ps', w') \<and> length ps' = length ps \<and>
           (\<forall>i<k. follows R Q ess (ps' ! i) \<and> rejection [ps' ! i] = None) \<and>
           (\<forall>i. k \<le> i \<and> i < length ps \<longrightarrow> ps' ! i = ps ! i) \<and>
           R w' \<and> trace w' = trace w @ concat (replicate k es)"
  using assms(3)
proof (induction k)
  case 0
  with assms(2) show ?case by simp
next
  case (Suc k)
  from Suc.prems have k: "k < length ps" by simp
  then have "k \<le> length ps" by simp
  from Suc.IH[OF this]
  obtain ps' w' where run: "run [0..<k] (ps, w) = (ps', w')"
    and len: "length ps' = length ps"
    and stepped: "\<forall>i<k. follows R Q ess (ps' ! i) \<and> rejection [ps' ! i] = None"
    and rest: "\<forall>i. k \<le> i \<and> i < length ps \<longrightarrow> ps' ! i = ps ! i"
    and R: "R w'" and tr: "trace w' = trace w @ concat (replicate k es)"
    by blast
  have fol: "follows R Q (es # ess) (ps ! i)" if "i < length ps" for i
    using assms(1) that by (simp only: Ball_def in_set_conv_nth) blast
  have norej: "rejection ps' = None"
  proof (rule rejection_None_iff[THEN iffD2], rule ballI)
    fix P assume "P \<in> set ps'"
    then obtain i where i: "i < length ps'" "P = ps' ! i"
      unfolding in_set_conv_nth by blast
    show "rejection [P] = None"
    proof (cases "i < k")
      case True
      from stepped[rule_format, OF True] have "rejection [ps' ! i] = None" by (rule conjunct2)
      with i show ?thesis by (simp only:)
    next
      case False
      with rest i len have P: "P = ps ! i" by simp
      from i len have "i < length ps" by simp
      from fol[OF this] have "follows R Q (es # ess) P" by (simp only: P)
      then have "suspended P" by (rule follows_suspended)
      then show ?thesis by (simp only: rejection_suspended rejection.simps)
    qed
  qed
  have pk: "ps' ! k = ps ! k" using rest k by simp
  from fol[OF k] have fk: "follows R Q (es # ess) (ps' ! k)" by (simp only: pk)
  note st = follows_step[OF fk R]
  let ?P = "fst (step (ps' ! k) w')" and ?w = "snd (step (ps' ! k) w')"
  have "run [0..<Suc k] (ps, w) = run [k] (ps', w')"
    by (simp only: upt_Suc_append[OF le0] run_append run)
  also have "\<dots> = resume k (ps', w')"
    using norej by simp
  also have "\<dots> = (ps'[k := ?P], ?w)"
    using k len by (simp add: resume_def split_beta del: follows.simps)
  finally have run': "run [0..<Suc k] (ps, w) = (ps'[k := ?P], ?w)" .
  have a: "follows R Q ess (ps'[k := ?P] ! i) \<and> rejection [ps'[k := ?P] ! i] = None"
    if "i < Suc k" for i
  proof (cases "i = k")
    case True
    with st k len show ?thesis by (simp del: follows.simps)
  next
    case False
    with that have "i < k" by simp
    from stepped[rule_format, OF this] False show ?thesis by (simp del: follows.simps)
  qed
  have b: "\<forall>i. Suc k \<le> i \<and> i < length ps \<longrightarrow> ps'[k := ?P] ! i = ps ! i"
    using rest by simp
  have c: "trace ?w = trace w @ concat (replicate (Suc k) es)"
    using st tr by (simp only: concat_replicate_snoc append_assoc)
  have d: "length (ps'[k := ?P]) = length ps" using len by simp
  from st have e: "R ?w" by (simp only:)
  from a have a': "\<forall>i<Suc k. follows R Q ess (ps'[k := ?P] ! i) \<and> rejection [ps'[k := ?P] ! i] = None"
    by (intro allI impI)
  show ?case
    by (intro exI conjI) (rule run' d a' b e c)+
qed

lemma lockstep_round:
  assumes "\<forall>P\<in>set ps. follows R Q (es # ess) P" and "R w"
  shows "\<exists>ps' w'. run [0..<length ps] (ps, w) = (ps', w') \<and> length ps' = length ps \<and>
           (\<forall>P\<in>set ps'. follows R Q ess P) \<and> rejection ps' = None \<and>
           R w' \<and> trace w' = trace w @ concat (replicate (length ps) es)"
proof -
  from lockstep_prefix[OF assms order_refl]
  obtain ps' w' where run: "run [0..<length ps] (ps, w) = (ps', w')"
    and len: "length ps' = length ps"
    and stepped: "\<forall>i<length ps. follows R Q ess (ps' ! i) \<and> rejection [ps' ! i] = None"
    and R: "R w'" and tr: "trace w' = trace w @ concat (replicate (length ps) es)"
    by blast
  from stepped len have "\<forall>P\<in>set ps'. follows R Q ess P \<and> rejection [P] = None"
    by (auto simp: in_set_conv_nth)
  then have "(\<forall>P\<in>set ps'. follows R Q ess P) \<and> rejection ps' = None"
    by (simp add: rejection_None_iff[of ps'])
  with run len R tr show ?thesis by blast
qed

text \<open>As many rounds as \<open>ess\<close> is long: each round logs the calls of one step, once for each task.\<close>

lemma lockstep_rounds:
  assumes "\<forall>P\<in>set ps. follows R Q ess P" and "R w"
  shows "\<exists>ps' w'. run (lockstep (length ps) (length ess)) (ps, w) = (ps', w') \<and>
           length ps' = length ps \<and> (\<forall>P\<in>set ps'. Q P) \<and> R w' \<and>
           trace w' = trace w @ concat (map (\<lambda>es. concat (replicate (length ps) es)) ess)"
  using assms
proof (induction ess arbitrary: ps w)
  case Nil
  then show ?case by (simp add: lockstep_def)
next
  case (Cons es ess)
  from lockstep_round[OF Cons.prems]
  obtain ps1 w1 where run1: "run [0..<length ps] (ps, w) = (ps1, w1)"
    and len1: "length ps1 = length ps"
    and fol1: "\<forall>P\<in>set ps1. follows R Q ess P"
    and R1: "R w1" and tr1: "trace w1 = trace w @ concat (replicate (length ps) es)"
    by blast
  from Cons.IH[OF fol1 R1]
  obtain ps' w' where run2: "run (lockstep (length ps1) (length ess)) (ps1, w1) = (ps', w')"
    and len2: "length ps' = length ps1" and Q: "\<forall>P\<in>set ps'. Q P" and R2: "R w'"
    and tr2: "trace w' = trace w1 @ concat (map (\<lambda>es. concat (replicate (length ps1) es)) ess)"
    by blast
  have "run (lockstep (length ps) (length (es # ess))) (ps, w) = (ps', w')"
    using run1 run2 len1 by (simp add: lockstep_def run_append)
  with len1 len2 Q R2 tr1 tr2 show ?case by simp
qed

lemma spawn_replicate:
  assumes "run_sync p w = (P, w)"
  shows "spawn (replicate n p) w = (replicate n P, w)"
  using assms by (induction n) simp_all





subsection \<open>No single flight\<close>

lemma registry_a_latest: "ok \<lparr>ok = True, res_json = Some data_a, res_body = []\<rparr>"
  "dist_tags_latest data_a = Some ''1''"
  by (simp_all add: data_a_def)




subsection \<open>A hit in the manifest costs one request\<close>

text \<open>
  Started in a world whose memory cache has no version for any package (the \<open>Map\<close> of
  line 26 is empty when the module is loaded), every task that line 148 starts consults
  the cache before any of them has filled it: each is suspended on its own request to the
  registry, and that request is the first call it makes.
\<close>

lemma spawn_acquire_all_miss:
  assumes "versionCache w = Map.empty"
  shows "spawn (map (\<lambda>pkg. acquire env pkg forceLatest) packages) w =
           (map (\<lambda>pkg. fst (run_sync (acquire env pkg forceLatest) w)) packages, w)"
proof (induction packages)
  case Nil
  show ?case by simp
next
  case (Cons pkg packages)
  have miss: "forceLatest \<or> versionCache w pkg = None" using assms by simp
  have "snd (run_sync (acquire env pkg forceLatest) w) = w"
    by (simp only: run_sync_acquire_miss[OF miss] snd_conv)
  with Cons show ?case by (simp add: split_beta)
qed

lemma acquire_first_step:
  assumes "forceLatest \<or> versionCache w pkg = None"
  shows "trace (snd (step (fst (run_sync (acquire env pkg forceLatest) w)) w'))
           = trace w' @ [HttpGet (packageUrl env pkg)]"
  unfolding run_sync_acquire_miss[OF assms] fst_conv
  by (simp add: step_simps log_def split: option.splits)

text \<open>
  C3, as the code has it. The memory cache has no version for the package when \<open>acquire\<close>
  consults it (or \<open>forceLatest\<close> is on), the registry resolves the package to \<open>version\<close>,
  and the manifest has an entry for \<open>pkg@version\<close> whose file exists. Then the lookup
  reads the manifest and the file and compares the digest of the bytes with the recorded
  \<open>integrity\<close>: on a match it yields the recorded path, on a mismatch it yields no path,
  unlinks the file and writes the manifest without the entry. On a match \<open>acquire\<close>
  returns the recorded path after one request to the registry and these two reads: no
  tarball is fetched and nothing is written. And from a memory cache that is empty, as it
  is when the program starts, every task started together misses it, and begins with its
  request to the registry.
\<close>

theorem acquire_hit_costs_one_registry_request:
  assumes "http w (packageUrl env pkg) = Some res" and "ok res"
    and "res_json res = Some data" and "dist_tags_latest data = Some version"
    and "forceLatest \<or> versionCache w pkg = None"
    and "map_of (manifestOf env w) (keyOf pkg version) = Some e"
    and "files w (path e) = Some bytes"
    and "path e \<noteq> []"
  shows "exec (getCachedPackage env pkg version) w =
           (if digest env bytes = integrity e
            then (Resolved (Some (path e)),
                  w\<lparr>trace := trace w @ [ReadFile (MANIFEST_PATH env), ReadFile (path e)]\<rparr>)
            else (case write_error w (MANIFEST_PATH env) of
                    None \<Rightarrow>
                      (Resolved None,
                       w\<lparr>files := (files w)(path e := None, MANIFEST_PATH env \<mapsto>
                                 JSON_stringify env (AList.delete (keyOf pkg version) (manifestOf env w))),
                         trace := trace w @ [ReadFile (MANIFEST_PATH env), ReadFile (path e),
                                             Unlink (path e), WriteFile (MANIFEST_PATH env)]\<rparr>)
                  | Some err \<Rightarrow>
                      (Rejected err,
                       w\<lparr>files := (files w)(path e := None),
                         trace := trace w @ [ReadFile (MANIFEST_PATH env), ReadFile (path e),
                                             Unlink (path e), WriteFile (MANIFEST_PATH env)]\<rparr>))) \<and>
         (digest env bytes = integrity e \<longrightarrow>
            exec (acquire env pkg forceLatest) w =
              (Resolved (path e),
               w\<lparr>versionCache := (versionCache w)(pkg \<mapsto> version),
                 trace := trace w @ [HttpGet (packageUrl env pkg), ReadFile (MANIFEST_PATH env),
                                     ReadFile (path e)]\<rparr>)) \<and>
         (versionCache w = Map.empty \<longrightarrow>
            spawn (map (\<lambda>pkg. acquire env pkg forceLatest) packages) w =
              (map (\<lambda>pkg. fst (run_sync (acquire env pkg forceLatest) w)) packages, w) \<and>
            (\<forall>pkg w'. trace (snd (step (fst (run_sync (acquire env pkg forceLatest) w)) w'))
                         = trace w' @ [HttpGet (packageUrl env pkg)]))"
proof (intro conjI impI allI)
  show "exec (getCachedPackage env pkg version) w =
           (if digest env bytes = integrity e
            then (Resolved (Some (path e)),
                  w\<lparr>trace := trace w @ [ReadFile (MANIFEST_PATH env), ReadFile (path e)]\<rparr>)
            else (case write_error w (MANIFEST_PATH env) of
                    None \<Rightarrow>
                      (Resolved None,
                       w\<lparr>files := (files w)(path e := None, MANIFEST_PATH env \<mapsto>
                                 JSON_stringify env (AList.delete (keyOf pkg version) (manifestOf env w))),
                         trace := trace w @ [ReadFile (MANIFEST_PATH env), ReadFile (path e),
                                             Unlink (path e), WriteFile (MANIFEST_PATH env)]\<rparr>)
                  | Some err \<Rightarrow>
                      (Rejected err,
                       w\<lparr>files := (files w)(path e := None),
                         trace := trace w @ [ReadFile (MANIFEST_PATH env), ReadFile (path e),
                                             Unlink (path e), WriteFile (MANIFEST_PATH env)]\<rparr>)))"
    by (rule getCachedPackage_entry[OF assms(6,7)])
next
  assume "digest env bytes = integrity e"
  then show "exec (acquire env pkg forceLatest) w =
              (Resolved (path e),
               w\<lparr>versionCache := (versionCache w)(pkg \<mapsto> version),
                 trace := trace w @ [HttpGet (packageUrl env pkg), ReadFile (MANIFEST_PATH env),
                                     ReadFile (path e)]\<rparr>)"
    by (rule acquire_hit_after_resolution[OF assms(6,7) _ assms(8,5,1-4)])
next
  assume "versionCache w = Map.empty"
  then show "spawn (map (\<lambda>pkg. acquire env pkg forceLatest) packages) w =
              (map (\<lambda>pkg. fst (run_sync (acquire env pkg forceLatest) w)) packages, w)"
    by (rule spawn_acquire_all_miss)
next
  fix p w'
  assume "versionCache w = Map.empty"
  then have "forceLatest \<or> versionCache w p = None" by simp
  then show "trace (snd (step (fst (run_sync (acquire env p forceLatest) w)) w'))
                         = trace w' @ [HttpGet (packageUrl env p)]"
    by (rule acquire_first_step)
qed

lemma w_cached_manifest: "manifestOf env0 w_cached = [(''a@1'', entry_a)]"
  by (simp add: manifestOf_def w_cached_def env0_simps)

lemma w_cached_hit:
  "http w_cached (packageUrl env0 ''a'')
     = Some \<lparr>ok = True, res_json = Some data_a, res_body = []\<rparr>"
  "False \<or> versionCache w_cached ''a'' = None"
  "map_of (manifestOf env0 w_cached) (keyOf ''a'' ''1'') = Some entry_a"
  "files w_cached (path entry_a) = Some ''x''"
  "path entry_a \<noteq> []"
  "digest env0 ''x'' = integrity entry_a"
  by (simp_all add: w_cached_manifest keyOf_def)
     (simp_all add: w_cached_def w0_simps env0_simps http0_simps entry_a_def)

theorem acquire_hit_costs_one_registry_request_witness:
  "exec (acquire env0 ''a'' False) w_cached =
     (Resolved ''/c/a-1.tgz'',
      w_cached\<lparr>versionCache := [''a'' \<mapsto> ''1''],
        trace := [HttpGet ''reg/a'', ReadFile ''/c/cache-manifest.json'', ReadFile ''/c/a-1.tgz'']\<rparr>) \<and>
   exec (getCachedPackage env0 ''a'' ''1'') w_cached =
     (Resolved (Some ''/c/a-1.tgz''),
      w_cached\<lparr>trace := [ReadFile ''/c/cache-manifest.json'', ReadFile ''/c/a-1.tgz'']\<rparr>)"
proof -
  note T = acquire_hit_costs_one_registry_request[OF w_cached_hit(1) registry_a_latest(1)
      registry_a(2) registry_a_latest(2) w_cached_hit(2,3,4,5)]
  from T[THEN conjunct2, THEN conjunct1, rule_format, OF w_cached_hit(6)]
  have 1: "exec (acquire env0 ''a'' False) w_cached =
     (Resolved ''/c/a-1.tgz'',
      w_cached\<lparr>versionCache := [''a'' \<mapsto> ''1''],
        trace := [HttpGet ''reg/a'', ReadFile ''/c/cache-manifest.json'', ReadFile ''/c/a-1.tgz'']\<rparr>)"
    by (simp add: env0_simps entry_a_def w_cached_def w0_simps)
  from T[THEN conjunct1] w_cached_hit(6)
  have 2: "exec (getCachedPackage env0 ''a'' ''1'') w_cached =
     (Resolved (Some ''/c/a-1.tgz''),
      w_cached\<lparr>trace := [ReadFile ''/c/cache-manifest.json'', ReadFile ''/c/a-1.tgz'']\<rparr>)"
    by (simp add: env0_simps entry_a_def w_cached_def w0_simps)
  from 1 2 show ?thesis by (rule conjI)
qed

text \<open>
  C3 fails as the spec has it: with the tarball on disk, in the manifest and verified, a
  run that starts with an empty memory cache still sends a request to the registry.
\<close>

theorem hit_without_network_counterexample:
  "trace (snd (exec (acquire env0 ''a'' False) w_cached)) =
     [HttpGet ''reg/a'', ReadFile ''/c/cache-manifest.json'', ReadFile ''/c/a-1.tgz'']"
proof -
  from acquire_hit_after_resolution[OF w_cached_hit(3,4) w_cached_hit(6)[symmetric, THEN sym]
      w_cached_hit(5,2,1) registry_a_latest(1) registry_a(2) registry_a_latest(2)]
  show ?thesis
    by (simp add: env0_simps entry_a_def w_cached_def w0_simps)
qed
subsection \<open>Eviction is not idempotent\<close>

text \<open>
  One task of \<open>acquire\<close> on an entry of the manifest whose file does not verify: the
  registry is asked, the manifest and the file are read, and the task is suspended on the
  eviction of the file.
\<close>

lemma acquire_corrupt_follows:
  assumes "http u (packageUrl env pkg) = Some res" and "ok res"
    and "res_json res = Some data" and "dist_tags_latest data = Some version"
    and "map_of (manifestOf env u) (keyOf pkg version) = Some e"
    and "files u (path e) = Some bytes" and "digest env bytes \<noteq> integrity e"
    and "forceLatest \<or> versionCache w pkg = None"
  shows "follows (same_outside u) (evicting (path e))
           [[HttpGet (packageUrl env pkg)], [], [ReadFile (MANIFEST_PATH env)],
            [ReadFile (path e)]]
           (fst (run_sync (acquire env pkg forceLatest) w))"
  unfolding run_sync_acquire_miss[OF assms(8)] fst_conv
  using assms(1-7)
  by (simp add: getCachedPackage_def step_simps log_def same_outside_def manifestOf_def Let_def
        evicting_def)

lemma rejection_Cons_None: "rejection [a] = None \<Longrightarrow> rejection (a # xs) = rejection xs"
  by (cases a) simp_all

text \<open>
  Two or more tasks suspended on the eviction of the same file, resumed in turn: the first
  deletes the file, the second throws \<open>ENOENT\<close>, and no task is resumed after that.
\<close>

lemma evicting_round:
  assumes "\<forall>P\<in>set ps. evicting p P" and "files w p \<noteq> None" and "2 \<le> length ps"
  shows "rejection (fst (run [0..<length ps] (ps, w))) = Some (ENOENT p)"
proof -
  from assms(3) obtain a b xs where ps: "ps = a # b # xs"
    by (cases ps; cases "tl ps") auto
  from assms(1) ps have a: "evicting p a" and b: "evicting p b" and xs: "\<forall>P\<in>set xs. evicting p P"
    by simp_all
  have sus: "rejection ps = None"
  proof (rule rejection_None_iff[THEN iffD2], rule ballI)
    fix P assume "P \<in> set ps"
    with assms(1) have "suspended P" by (simp add: evicting_def)
    then show "rejection [P] = None" by (simp only: rejection_suspended rejection.simps)
  qed
  let ?a = "fst (step a w)" and ?w = "snd (step a w)"
  from a assms(2) have a': "rejection [?a] = None" and gone: "files ?w p = None"
    by (simp_all add: evicting_def)
  from b have bs: "suspended b" by (simp add: evicting_def)
  have xsrej: "rejection xs = None"
  proof (rule rejection_None_iff[THEN iffD2], rule ballI)
    fix P assume "P \<in> set xs"
    with xs have "suspended P" by (simp add: evicting_def)
    then show "rejection [P] = None" by (simp only: rejection_suspended rejection.simps)
  qed
  have r0: "resume 0 (ps, w) = (?a # b # xs, ?w)"
    by (simp add: resume_def ps split_beta)
  have rej1: "rejection (?a # b # xs) = None"
    using a' bs xsrej by (simp add: rejection_Cons_None rejection_suspended)
  from b gone have thrown: "fst (step b ?w) = Throw (ENOENT p)"
    by (simp add: evicting_def)
  have r1: "resume (Suc 0) (?a # b # xs, ?w) = (?a # Throw (ENOENT p) # xs, snd (step b ?w))"
    by (simp add: resume_def split_beta thrown)
  have rej2: "rejection (?a # Throw (ENOENT p) # xs) = Some (ENOENT p)"
    using a' by (simp add: rejection_Cons_None)
  have "[0..<length ps] = 0 # [Suc 0..<Suc (Suc (length xs))]"
    unfolding ps by (subst upt_rec) simp
  also have "[Suc 0..<Suc (Suc (length xs))] = Suc 0 # [Suc (Suc 0)..<Suc (Suc (length xs))]"
    by (subst upt_rec) simp
  finally obtain rest where upt: "[0..<length ps] = 0 # Suc 0 # rest"
    by simp
  have stop: "run sched (?a # Throw (ENOENT p) # xs, w2) = (?a # Throw (ENOENT p) # xs, w2)"
    for sched w2
    using rej2 by (cases sched) simp_all
  have "run [0..<length ps] (ps, w) = (?a # Throw (ENOENT p) # xs, snd (step b ?w))"
    unfolding upt
    using sus rej1 by (simp add: r0 r1 stop del: upt_Suc)
  with rej2 show ?thesis by simp
qed

lemma lockstep_corrupt_result:
  assumes "http w (packageUrl env pkg) = Some res" and "ok res"
    and "res_json res = Some data" and "dist_tags_latest data = Some version"
    and "map_of (manifestOf env w) (keyOf pkg version) = Some e"
    and "files w (path e) = Some bytes" and "digest env bytes \<noteq> integrity e"
    and "forceLatest \<or> versionCache w pkg = None"
    and "2 \<le> N"
  shows "fst (promise_all (lockstep N 5) (replicate N (acquire env pkg forceLatest)) w)
           = Some (Rejected (ENOENT (path e)))"
proof -
  let ?P = "fst (run_sync (acquire env pkg forceLatest) w)"
  let ?ess = "[[HttpGet (packageUrl env pkg)], [], [ReadFile (MANIFEST_PATH env)],
            [ReadFile (path e)]]"
  have rs: "run_sync (acquire env pkg forceLatest) w = (?P, w)"
    by (simp only: run_sync_acquire_miss[OF assms(8)] fst_conv)
  have sp: "spawn (replicate N (acquire env pkg forceLatest)) w = (replicate N ?P, w)"
    by (rule spawn_replicate[OF rs])
  have fol: "\<forall>P\<in>set (replicate N ?P). follows (same_outside w) (evicting (path e)) ?ess P"
    using acquire_corrupt_follows[OF assms(1-8)] by (simp del: follows.simps)
  have R: "same_outside w w" by (simp add: same_outside_def)
  have l: "length ?ess = 4" by simp
  from lockstep_rounds[OF fol R, unfolded length_replicate l]
  obtain ps' w' where run: "run (lockstep N 4) (replicate N ?P, w) = (ps', w')"
    and len: "length ps' = N" and all: "\<forall>P\<in>set ps'. evicting (path e) P"
    and same: "same_outside w w'"
    by blast
  from same assms(6) have present: "files w' (path e) \<noteq> None"
    by (simp add: same_outside_def)
  from assms(9) len have two: "2 \<le> length ps'" by simp
  have split: "lockstep N 5 = lockstep N 4 @ [0..<N]"
    by (simp add: lockstep_def numeral_eq_Suc replicate_append_same)
  have "rejection (fst (run (lockstep N 5) (replicate N ?P, w))) = Some (ENOENT (path e))"
    using evicting_round[OF all present two] by (simp add: split run_append run len)
  then show ?thesis
    by (simp add: promise_all_def sp split_beta)
qed

text \<open>
  C9, as the code has it. The eviction of lines 94 and 112 is a bare \<open>fsPromises.unlink\<close>
  of a path that the function has just read. In \<open>getCachedPackage\<close>, run alone on an entry
  whose file does not verify, it deletes the file and the function goes on to write the
  manifest. It is not idempotent, and nothing catches its error: when two or more callers
  of \<open>acquire\<close> meet the same entry in lock-step, the first eviction deletes the file, the
  second finds no file and rejects with \<open>ENOENT\<close>, and \<open>Promise.all\<close> rejects with that
  error.
\<close>

theorem eviction_not_idempotent:
  assumes "http w (packageUrl env pkg) = Some res" and "ok res"
    and "res_json res = Some data" and "dist_tags_latest data = Some version"
    and "map_of (manifestOf env w) (keyOf pkg version) = Some e"
    and "files w (path e) = Some bytes" and "digest env bytes \<noteq> integrity e"
    and "forceLatest \<or> versionCache w pkg = None"
    and "2 \<le> N"
  shows "exec (getCachedPackage env pkg version) w =
           (case write_error w (MANIFEST_PATH env) of
              None \<Rightarrow>
                (Resolved None,
                 w\<lparr>files := (files w)(path e := None, MANIFEST_PATH env \<mapsto>
                           JSON_stringify env (AList.delete (keyOf pkg version) (manifestOf env w))),
                   trace := trace w @ [ReadFile (MANIFEST_PATH env), ReadFile (path e),
                                       Unlink (path e), WriteFile (MANIFEST_PATH env)]\<rparr>)
            | Some err \<Rightarrow>
                (Rejected err,
                 w\<lparr>files := (files w)(path e := None),
                   trace := trace w @ [ReadFile (MANIFEST_PATH env), ReadFile (path e),
                                       Unlink (path e), WriteFile (MANIFEST_PATH env)]\<rparr>)) \<and>
         fst (promise_all (lockstep N 5) (replicate N (acquire env pkg forceLatest)) w)
           = Some (Rejected (ENOENT (path e)))"
proof (rule conjI)
  show "exec (getCachedPackage env pkg version) w =
           (case write_error w (MANIFEST_PATH env) of
              None \<Rightarrow>
                (Resolved None,
                 w\<lparr>files := (files w)(path e := None, MANIFEST_PATH env \<mapsto>
                           JSON_stringify env (AList.delete (keyOf pkg version) (manifestOf env w))),
                   trace := trace w @ [ReadFile (MANIFEST_PATH env), ReadFile (path e),
                                       Unlink (path e), WriteFile (MANIFEST_PATH env)]\<rparr>)
            | Some err \<Rightarrow>
                (Rejected err,
                 w\<lparr>files := (files w)(path e := None),
                   trace := trace w @ [ReadFile (MANIFEST_PATH env), ReadFile (path e),
                                       Unlink (path e), WriteFile (MANIFEST_PATH env)]\<rparr>))"
    using getCachedPackage_entry[OF assms(5,6)] assms(7) by simp
  show "fst (promise_all (lockstep N 5) (replicate N (acquire env pkg forceLatest)) w)
           = Some (Rejected (ENOENT (path e)))"
    by (rule lockstep_corrupt_result[OF assms])
qed

lemma w_corrupt_entry:
  "http w_corrupt (packageUrl env0 ''a'')
     = Some \<lparr>ok = True, res_json = Some data_a, res_body = []\<rparr>"
  "map_of (manifestOf env0 w_corrupt) (keyOf ''a'' ''1'') = Some entry_a"
  "files w_corrupt (path entry_a) = Some ''tampered''"
  "digest env0 ''tampered'' \<noteq> integrity entry_a"
  "False \<or> versionCache w_corrupt ''a'' = None"
  "(2::nat) \<le> 2"
  by (simp_all add: w_corrupt_def w0_simps env0_simps http0_simps entry_a_def manifestOf_def
        keyOf_def)

theorem eviction_not_idempotent_witness:
  "fst (exec (getCachedPackage env0 ''a'' ''1'') w_corrupt) = Resolved None \<and>
   files (snd (exec (getCachedPackage env0 ''a'' ''1'') w_corrupt)) ''/c/a-1.tgz'' = None \<and>
   fst (promise_all (lockstep 2 5) (replicate 2 (acquire env0 ''a'' False)) w_corrupt)
     = Some (Rejected (ENOENT ''/c/a-1.tgz''))"
proof -
  note T = eviction_not_idempotent[OF w_corrupt_entry(1) registry_a_latest(1) registry_a(2)
      registry_a_latest(2) w_corrupt_entry(2,3,4,5,6)]
  from T[THEN conjunct1]
  have 1: "fst (exec (getCachedPackage env0 ''a'' ''1'') w_corrupt) = Resolved None \<and>
   files (snd (exec (getCachedPackage env0 ''a'' ''1'') w_corrupt)) ''/c/a-1.tgz'' = None"
    by (simp add: w_corrupt_def w0_simps env0_simps entry_a_def)
  from T[THEN conjunct2]
  have 2: "fst (promise_all (lockstep 2 5) (replicate 2 (acquire env0 ''a'' False)) w_corrupt)
     = Some (Rejected (ENOENT ''/c/a-1.tgz''))"
    by (simp add: entry_a_def)
  from 1 2 show ?thesis by simp
qed

subsection \<open>Writes in place\<close>











end
